theory Spec2Isabelle
  imports Complex_Main "HOL-Library.Word" "HOL-Library.Log_Nat"
begin

unbundle bit_operations_syntax

section \<open>The ACPI controller of acpi.c: data model\<close>

text \<open>
  Modelled from the spec: the profile of a device, "an immutable classification (one of
  six)". The source keeps it in \<open>dev->vendor\<close> and compares it with the macros
  \<open>VEN_ALI\<close> ... \<open>VEN_VIA_596B\<close> of the header acpi.h, which is not among the
  sources; these are the six values the dispatch functions test for.
\<close>

datatype vendor = VEN_ALI | VEN_INTEL | VEN_INTEL_ICH2 | VEN_SMC | VEN_VIA | VEN_VIA_596B

text \<open>
  Modelled from the spec: the macros of the header acpi.h, which is not among the sources.
  The spec names the bits (timer-overflow, bus-master, global, power-button, real-time-clock;
  the effect flags of a sleep type) and the timer frequency of 3.579545 ticks per
  microsecond; the bit positions are the ones the masks \<open>0x8d31\<close> and \<open>0x0521\<close> of
  the status and enable registers and the comment "Timer Overflow Interrupt Enable" on
  \<open>pmen & 1\<close> leave room for.
\<close>

definition ACPI_TIMER_FREQ :: int where "ACPI_TIMER_FREQ = 3579545"

definition TMROF_STS :: "32 word" where "TMROF_STS = 0x0001"
definition BM_STS :: "32 word" where "BM_STS = 0x0010"

definition TMROF_EN :: "32 word" where "TMROF_EN = 0x0001"
definition GBL_EN :: "32 word" where "GBL_EN = 0x0020"
definition PWRBTN_EN :: "32 word" where "PWRBTN_EN = 0x0100"
definition RTC_EN :: "32 word" where "RTC_EN = 0x0400"

definition SUS_POWER_OFF :: "32 word" where "SUS_POWER_OFF = 0x01"
definition SUS_SUSPEND :: "32 word" where "SUS_SUSPEND = 0x02"
definition SUS_NVR :: "32 word" where "SUS_NVR = 0x04"
definition SUS_RESET_CPU :: "32 word" where "SUS_RESET_CPU = 0x08"
definition SUS_RESET_CACHE :: "32 word" where "SUS_RESET_CACHE = 0x10"
definition SUS_RESET_PCI :: "32 word" where "SUS_RESET_PCI = 0x20"

text \<open>
  Modelled from the spec: the register file \<open>acpi_regs_t\<close>, "a flat collection of
  fixed-width registers". The struct is declared in acpi.h, which is not among the
  sources; the record has every field acpi.c reads or writes, and the widths follow the
  masks and shifts the source applies to each field (8-bit fields are assigned a byte,
  16-bit fields are masked with four hex digits, 32-bit fields with eight). \<open>smi_lock\<close>
  and \<open>smi_active\<close> are C truth values held in an \<open>int\<close>. The claims below do
  not depend on the widths chosen.
\<close>

record acpi_regs =
  plvl2 :: "8 word"
  plvl3 :: "8 word"
  smicmd :: "8 word"
  gpio_dir :: "8 word"
  gpio_val :: "8 word"
  ali_soft_smi :: "8 word"
  timer32 :: "8 word"
  gpireg :: "8 word list"
  gporeg :: "8 word list"
  extiotrapsts :: "8 word"
  extiotrapen :: "8 word"
  bus_cyc_track :: "8 word"
  pmsts :: "16 word"
  pmen :: "16 word"
  pmcntrl :: "16 word"
  gpsts :: "16 word"
  gpsts1 :: "16 word"
  gpen :: "16 word"
  gpen1 :: "16 word"
  gpscien :: "16 word"
  gpsmien :: "16 word"
  pscntrl :: "16 word"
  gpscists :: "16 word"
  mon_smi :: "16 word"
  devact_sts :: "16 word"
  devtrap_en :: "16 word"
  bus_addr_track :: "16 word"
  smi_lock :: "32 word"
  smi_active :: "32 word"
  gpcntrl :: "32 word"
  pcntrl :: "32 word"
  glbsts :: "32 word"
  devsts :: "32 word"
  glben :: "32 word"
  glbctl :: "32 word"
  devctl :: "32 word"
  padsts :: "32 word"
  paden :: "32 word"
  gptren :: "32 word"
  gpo_val :: "32 word"
  gpi_val :: "32 word"
  extsmi_val :: "32 word"
  smi_en :: "32 word"
  smi_sts :: "32 word"

text \<open>
  Modelled from the spec: the device \<open>acpi_t\<close> (declared in acpi.h as well), with the
  register file, the profile, the IRQ wiring, the sleep-type table of eight entries and the
  defaults \<open>acpi_reset\<close> restores. The pointers to collaborators (\<open>i2c\<close>,
  \<open>trap_update\<close>) are kept as "is not NULL".
\<close>

record acpi =
  regs :: acpi_regs
  vendor :: vendor
  slot :: "32 word"
  irq_mode :: "32 word"
  irq_pin :: "32 word"
  irq_line :: "32 word"
  mirq_is_level :: "32 word"
  suspend_types :: "32 word list"
  gpireg2_default :: "8 word"
  gporeg_default :: "8 word list"
  i2c :: bool
  trap_update :: bool

text \<open>
  Everything acpi.c does outside the device is a call to a collaborator or an assignment
  to a global variable of another module (\<open>cpu_alt_reset\<close>, \<open>mem_a20_alt\<close>,
  \<open>i2c_smbus\<close>). The model records them, in order, in a trace.
\<close>

datatype timer_id = Timer | Resume_timer

datatype call =
    Pci_set_irq "32 word" "32 word"
  | Pci_clear_irq "32 word" "32 word"
  | Pci_set_mirq "32 word" "32 word"
  | Pci_clear_mirq "32 word" "32 word"
  | Timer_on_auto timer_id rat
  | Timer_stop timer_id
  | Timer_set_delay_u64 timer_id "64 word"
  | Timer_add timer_id
  | Smi_raise
  | Plat_power_off
  | Plat_pause "32 word"
  | Nvr_reg_write "32 word" "8 word"
  | Device_reset_all_pci
  | Cpu_alt_reset_assign "32 word"
  | Pci_reset
  | Keyboard_at_reset
  | Mem_a20_alt_assign "32 word"
  | Mem_a20_recalc
  | Flushmmucache
  | Resetx86
  | Trap_update
  | Apm_set_do_smi bool
  | Tco_write "16 word" "8 word"
  | Device_add_apm
  | Io_sethandler "16 word" "32 word"
  | I2c_gpio_init
  | I2c_smbus_assign
  | I2c_gpio_set bool bool

text \<open>
  The emulator around the device: the device, the global \<open>acpi_rtc_status\<close> of acpi.c,
  what the environment supplies (the value \<open>tsc * cpu_to_acpi\<close> that
  \<open>acpi_clock_get\<close> returns, the global \<open>TIMER_USEC\<close> and the machine's internal
  name) and the trace of collaborator calls, oldest first.
\<close>

record machine =
  dev :: acpi
  acpi_rtc_status :: "32 word"
  clock :: "64 word"
  TIMER_USEC :: "64 word"
  machine_internal_name :: string
  calls :: "call list"

definition upd_regs :: "(acpi_regs \<Rightarrow> acpi_regs) \<Rightarrow> machine \<Rightarrow> machine" where
  "upd_regs f m = m\<lparr>dev := (dev m)\<lparr>regs := f (regs (dev m))\<rparr>\<rparr>"

definition do_call :: "call \<Rightarrow> machine \<Rightarrow> machine" where
  "do_call c m = m\<lparr>calls := calls m @ [c]\<rparr>"

section \<open>The timer model\<close>

definition acpi_clock_get :: "machine \<Rightarrow> 64 word" where
  "acpi_clock_get m = clock m"

definition acpi_timer_get :: "machine \<Rightarrow> 32 word" where
  "acpi_timer_get m =
     (let clock = acpi_clock_get m in
      if timer32 (regs (dev m)) \<noteq> 0 then ucast (clock AND 0xffffffff)
      else ucast (clock AND 0xffffff))"

text \<open>
  The local \<open>time_to_overflow\<close> of \<open>acpi_get_overflow_period\<close>, in 64-bit unsigned
  arithmetic.
\<close>

definition time_to_overflow :: "machine \<Rightarrow> 64 word" where
  "time_to_overflow m =
     (let timer = acpi_clock_get m;
          overflow_time =
            (if timer32 (regs (dev m)) \<noteq> 0
             then (timer + 0x80000000) AND NOT 0x7fffffff
             else (timer + 0x800000) AND NOT 0x7fffff)
      in overflow_time - timer)"

text \<open>
  The period is a \<open>double\<close>. The model holds a finite double by its value, a rational
  number, and rounds every operation as IEEE 754 binary64 does: to the nearest number
  with a significand of 53 bits, a tie going to the even significand.
  \<open>double_exponent x\<close> is the binary exponent of a positive \<open>x\<close> (the \<open>e\<close> with
  \<open>2 powi e \<le> x < 2 powi (e + 1)\<close>), found from the bit lengths of numerator and
  denominator. Overflow to infinity and subnormal numbers are not modelled: the tick
  count is between 1 and \<open>2 ^ 31\<close>, the quotient is at least \<open>2 powi (- 22)\<close>, and
  the period lies between \<open>1 / 4\<close> and \<open>2 ^ 30\<close> (\<open>overflow_period_range\<close> below).
\<close>

definition round_half_even :: "rat \<Rightarrow> int" where
  "round_half_even y =
     (let f = \<lfloor>y\<rfloor>; r = y - of_int f in
      if r < 1 / 2 then f
      else if 1 / 2 < r then f + 1
      else if even f then f else f + 1)"

definition double_exponent :: "rat \<Rightarrow> int" where
  "double_exponent x =
     (let d = bitlen (fst (quotient_of x)) - bitlen (snd (quotient_of x))
      in if 2 powi d \<le> x then d else d - 1)"

definition double_round :: "rat \<Rightarrow> rat" where
  "double_round x =
     (if x = 0 then 0
      else (let e = double_exponent \<bar>x\<bar>
            in sgn x * of_int (round_half_even (\<bar>x\<bar> * 2 powi (52 - e))) * 2 powi (e - 52)))"

text \<open>
  \<open>((double) time_to_overflow / (double) ACPI_TIMER_FREQ) * 1000000.0\<close>: two conversions
  to \<open>double\<close>, a division and a multiplication, each rounded. The period is in
  microseconds.
\<close>

definition acpi_get_overflow_period :: "machine \<Rightarrow> rat" where
  "acpi_get_overflow_period m =
     double_round
       (double_round
          (double_round (of_int (uint (time_to_overflow m)))
             / double_round (of_int ACPI_TIMER_FREQ))
        * 1000000)"

definition acpi_timer_update :: "bool \<Rightarrow> machine \<Rightarrow> machine" where
  "acpi_timer_update enable m =
     (if enable then do_call (Timer_on_auto Timer (acpi_get_overflow_period m)) m
      else do_call (Timer_stop Timer) m)"

section \<open>The interrupt and SMI router\<close>

definition acpi_update_irq :: "machine \<Rightarrow> machine" where
  "acpi_update_irq m =
     (let d = dev m;
          sci_level =
            (ucast (pmsts (regs d)) AND ucast (pmen (regs d)))
              AND (RTC_EN OR PWRBTN_EN OR GBL_EN OR TMROF_EN);
          sci_level =
            (if vendor d = VEN_SMC then sci_level OR (ucast (pmsts (regs d)) AND BM_STS)
             else sci_level);
          m = (if sci_level \<noteq> 0 then
                 (if irq_mode d = 1 then do_call (Pci_set_irq (slot d) (irq_pin d)) m
                  else if irq_mode d = 2 then do_call (Pci_set_mirq 5 (mirq_is_level d)) m
                  else do_call (Pci_set_mirq (0xf0 OR irq_line d) 1) m)
               else
                 (if irq_mode d = 1 then do_call (Pci_clear_irq (slot d) (irq_pin d)) m
                  else if irq_mode d = 2 then do_call (Pci_clear_mirq 5 (mirq_is_level d)) m
                  else do_call (Pci_clear_mirq (0xf0 OR irq_line d) 1) m))
      in acpi_timer_update
           ((ucast (pmen (regs d)) AND TMROF_EN \<noteq> 0)
              \<and> \<not> (ucast (pmsts (regs d)) AND TMROF_STS \<noteq> 0)) m)"

definition acpi_raise_smi :: "32 word \<Rightarrow> machine \<Rightarrow> machine" where
  "acpi_raise_smi do_smi m =
     (let d = dev m; r = regs d in
      if glbctl r AND 0x01 \<noteq> 0 then
        (if vendor d = VEN_VIA \<or> vendor d = VEN_VIA_596B then
           (if smi_lock r = 0 \<or> smi_active r = 0 then
              (let m = (if do_smi \<noteq> 0 then do_call Smi_raise m else m)
               in upd_regs (\<lambda>r. r\<lparr>smi_active := 1\<rparr>) m)
            else m)
         else if vendor d = VEN_INTEL \<or> vendor d = VEN_ALI then
           (let m = (if do_smi \<noteq> 0 then do_call Smi_raise m else m)
            in if vendor d = VEN_INTEL
               then upd_regs (\<lambda>r. r\<lparr>glbctl := glbctl r AND NOT 0x00010000\<rparr>) m
               else upd_regs (\<lambda>r. r\<lparr>ali_soft_smi := 1\<rparr>) m)
         else if vendor d = VEN_SMC then
           (if do_smi \<noteq> 0 then do_call Smi_raise m else m)
         else m)
      else if vendor d = VEN_INTEL_ICH2 \<and> do_smi \<noteq> 0 \<and> smi_en r AND 1 \<noteq> 0 then
        do_call Smi_raise m
      else m)"

text \<open>The callback of the overflow timer.\<close>

definition acpi_timer_overflow :: "machine \<Rightarrow> machine" where
  "acpi_timer_overflow m =
     (let sci_en = ucast (pmcntrl (regs (dev m))) AND (1 :: 32 word);
          m = upd_regs (\<lambda>r. r\<lparr>pmsts := ucast (ucast (pmsts r) OR TMROF_STS)\<rparr>) m
      in if pmen (regs (dev m)) AND 1 \<noteq> 0 then
           (if sci_en \<noteq> 0 then acpi_update_irq m else acpi_raise_smi 1 m)
         else m)"

text \<open>
  \<open>acpi_ali_soft_smi_status_read\<close>: \<open>return dev->regs.ali_soft_smi = 1;\<close> gives the
  value read and the device after the read.
\<close>

definition acpi_ali_soft_smi_status_read :: "machine \<Rightarrow> 8 word \<times> machine" where
  "acpi_ali_soft_smi_status_read m = (1, upd_regs (\<lambda>r. r\<lparr>ali_soft_smi := 1\<rparr>) m)"

definition acpi_ali_soft_smi_status_write :: "8 word \<Rightarrow> machine \<Rightarrow> machine" where
  "acpi_ali_soft_smi_status_write soft_smi m = upd_regs (\<lambda>r. r\<lparr>ali_soft_smi := soft_smi\<rparr>) m"

section \<open>The register decoder: writes\<close>

text \<open>
  Two statements recur in every handler: the write-one-to-clear of a status register and
  the merge of the written byte into its lane of a register, under a mask. They are
  \<open>w1c\<close> and \<open>merge\<close> below. \<open>val << shift\<close> and \<open>0xff << shift\<close> are
  computed in \<open>int\<close>, so in 32 bits; the result is cut to the width of the field it is
  assigned to. \<open>sz\<close> is the access width \<open>size\<close>, which the handlers log and a few
  registers test (\<open>size == 1\<close>).
\<close>

definition w1c :: "'a::len word \<Rightarrow> nat \<Rightarrow> 8 word \<Rightarrow> 32 word \<Rightarrow> 'a word" where
  \<comment> \<open>\<open>reg &= ~((val << shift) & mask);\<close>\<close>
  "w1c reg shift val msk =
     ucast ((ucast reg :: 32 word) AND NOT (push_bit shift (ucast val) AND msk))"

definition merge :: "'a::len word \<Rightarrow> nat \<Rightarrow> 8 word \<Rightarrow> 32 word \<Rightarrow> 'a word" where
  \<comment> \<open>\<open>reg = ((reg & ~(0xff << shift)) | (val << shift)) & mask;\<close>, the register
      read being the first argument\<close>
  "merge reg shift val msk =
     ucast ((((ucast reg :: 32 word) AND NOT (push_bit shift 0xff))
              OR push_bit shift (ucast val)) AND msk)"

definition acpi_reg_write_common_regs ::
  "32 word \<Rightarrow> 16 word \<Rightarrow> 8 word \<Rightarrow> machine \<Rightarrow> machine" where
  "acpi_reg_write_common_regs sz addr val m =
     (let addr = addr AND 0x3f;
          shift16 = unat (push_bit 3 (addr AND 1));
          pmcntrl_merge = upd_regs (\<lambda>r. r\<lparr>pmcntrl :=
            merge (pmcntrl r) shift16 val 0x3f07\<rparr>)
      in
      if addr = 0x00 \<or> addr = 0x01 then
        (let m = upd_regs (\<lambda>r. r\<lparr>pmsts :=
                   w1c (pmsts r) shift16 val 0x8d31\<rparr>) m;
             m = (if addr = 0x01 \<and> val AND 0x04 \<noteq> 0 then m\<lparr>acpi_rtc_status := 0\<rparr> else m)
         in acpi_update_irq m)
      else if addr = 0x02 \<or> addr = 0x03 then
        (let m = upd_regs (\<lambda>r. r\<lparr>pmen :=
                   merge (pmen r) shift16 val 0x0521\<rparr>) m
         in acpi_update_irq m)
      else if addr = 0x04 \<or> addr = 0x05 then
        (if addr = 0x05 \<and> val AND 0x20 \<noteq> 0 \<and> val AND 4 \<noteq> 0
              \<and> smi_en (regs (dev m)) AND 0x00000010 \<noteq> 0
              \<and> vendor (dev m) = VEN_INTEL_ICH2 then
           (let m = upd_regs (\<lambda>r. r\<lparr>smi_sts := smi_sts r OR 0x00000010\<rparr>) m;
                m = acpi_raise_smi 1 m
            in pmcntrl_merge m)
         else if addr = 0x05 \<and> val AND 0x20 \<noteq> 0 then
           (let sus_typ = suspend_types (dev m) ! unat (drop_bit 2 val AND 7) in
            if sus_typ AND SUS_POWER_OFF \<noteq> 0 then
              do_call Plat_power_off m
            else
              (let m =
                 (if sus_typ AND SUS_SUSPEND \<noteq> 0 then
                    (let m = (if sus_typ AND SUS_NVR \<noteq> 0
                              then do_call (Nvr_reg_write 0x000f 0xff) m else m);
                         m = (if sus_typ AND SUS_RESET_PCI \<noteq> 0
                              then do_call Device_reset_all_pci m else m);
                         m = (if sus_typ AND SUS_RESET_CPU \<noteq> 0
                              then do_call (Cpu_alt_reset_assign 0) m else m);
                         m = (if sus_typ AND SUS_RESET_PCI \<noteq> 0 then
                                (let m = do_call Pci_reset m;
                                     m = do_call Keyboard_at_reset m;
                                     m = do_call (Mem_a20_alt_assign 0) m
                                 in do_call Mem_a20_recalc m)
                              else m);
                         m = (if sus_typ AND (SUS_RESET_CPU OR SUS_RESET_CACHE) \<noteq> 0
                              then do_call Flushmmucache m else m);
                         m = (if sus_typ AND SUS_RESET_CPU \<noteq> 0
                              then do_call Resetx86 m else m);
                         m = do_call (Plat_pause 1) m
                     in do_call (Timer_set_delay_u64 Resume_timer (50 * TIMER_USEC m)) m)
                  else m)
               in pmcntrl_merge m))
         else pmcntrl_merge m)
      else m)"

definition acpi_reg_write_ali ::
  "32 word \<Rightarrow> 16 word \<Rightarrow> 8 word \<Rightarrow> machine \<Rightarrow> machine" where
  "acpi_reg_write_ali sz addr val m =
     (let addr = addr AND 0x3f;
          shift16 = unat (push_bit 3 (addr AND 1));
          shift32 = unat (push_bit 3 (addr AND 3))
      in
      if addr \<in> {0x10, 0x11, 0x12, 0x13} then
        upd_regs (\<lambda>r. r\<lparr>pcntrl :=
          merge (pcntrl r) shift32 val 0x00023e1e\<rparr>) m
      else if addr = 0x14 then
        upd_regs (\<lambda>r. r\<lparr>plvl2 := val\<rparr>) m
      else if addr = 0x15 then
        upd_regs (\<lambda>r. r\<lparr>plvl3 := val\<rparr>) m
      else if addr \<in> {0x18, 0x19} then
        upd_regs (\<lambda>r. r\<lparr>gpsts :=
          w1c (gpsts r) shift16 val 0x0d07\<rparr>) m
      else if addr \<in> {0x1a, 0x1b} then
        upd_regs (\<lambda>r. r\<lparr>gpen :=
          merge (gpen r) shift16 val 0x0d07\<rparr>) m
      else if addr \<in> {0x1d, 0x1c} then
        upd_regs (\<lambda>r. r\<lparr>gpsts1 :=
          w1c (gpsts1 r) shift16 val 0x0c01\<rparr>) m
      else if addr \<in> {0x1f, 0x1e} then
        upd_regs (\<lambda>r. r\<lparr>gpen1 :=
          merge (gpen r) shift16 val 0x0c01\<rparr>) m
      else if 0x20 \<le> addr \<and> addr \<le> 0x27 then
        upd_regs (\<lambda>r. r\<lparr>gpcntrl :=
          merge (gpcntrl r) shift32 val 0x00000001\<rparr>) m
      else if addr = 0x30 then
        upd_regs (\<lambda>r. r\<lparr>pmcntrl := ucast (val AND 1)\<rparr>) m
      else
        (let m = acpi_reg_write_common_regs sz addr val m in
         if addr = 0x00 \<and> \<not> (pmsts (regs (dev m)) AND 0x20 \<noteq> 0) then
           upd_regs (\<lambda>r. r\<lparr>gpcntrl := gpcntrl r AND NOT 0x0002\<rparr>) m
         else if addr = 0x04 \<and> pmcntrl (regs (dev m)) AND 0x0004 \<noteq> 0 then
           (let m = upd_regs (\<lambda>r. r\<lparr>gpsts1 := gpsts1 r OR 0x01\<rparr>) m in
            if gpen1 (regs (dev m)) AND 0x01 \<noteq> 0 then acpi_raise_smi 1 m else m)
         else m))"

definition acpi_reg_write_intel_ich2 ::
  "32 word \<Rightarrow> 16 word \<Rightarrow> 8 word \<Rightarrow> machine \<Rightarrow> machine" where
  "acpi_reg_write_intel_ich2 sz addr val m =
     (let addr = addr AND 0x7f;
          shift16 = unat (push_bit 3 (addr AND 1));
          shift32 = unat (push_bit 3 (addr AND 3))
      in
      if addr \<in> {0x10, 0x11, 0x12, 0x13} then
        upd_regs (\<lambda>r. r\<lparr>pcntrl :=
          merge (pcntrl r) shift32 val 0x000201fe\<rparr>) m
      else if addr \<in> {0x28, 0x29} then
        upd_regs (\<lambda>r. r\<lparr>gpsts :=
          w1c (gpsts r) shift16 val 0x09fb\<rparr>) m
      else if addr \<in> {0x2a, 0x2b} then
        upd_regs (\<lambda>r. r\<lparr>gpen :=
          merge (gpen r) shift16 val 0x097d\<rparr>) m
      else if addr \<in> {0x2c, 0x2d} then
        upd_regs (\<lambda>r. r\<lparr>gpsts1 :=
          w1c (gpsts1 r) shift16 val 0x09fb\<rparr>) m
      else if addr \<in> {0x2e, 0x2f} then
        upd_regs (\<lambda>r. r\<lparr>gpen1 :=
          merge (gpen r) shift16 val 0x097d\<rparr>) m
      else if addr \<in> {0x30, 0x31, 0x32, 0x33} then
        (let m = upd_regs (\<lambda>r. r\<lparr>smi_en :=
                   merge (smi_en r) shift32 val 0x0000867f\<rparr>) m
         in if addr = 0x30 then
              (let m = do_call (Apm_set_do_smi (val AND 0x20 \<noteq> 0)) m in
               if val AND 0x80 \<noteq> 0 then
                 (let m = upd_regs (\<lambda>r. r\<lparr>glbsts := glbsts r OR 0x0020\<rparr>) m
                  in acpi_update_irq m)
               else m)
            else m)
      else if addr \<in> {0x34, 0x35, 0x36, 0x37} then
        upd_regs (\<lambda>r. r\<lparr>smi_sts :=
          w1c (smi_sts r) shift32 val 0x0001ff7c\<rparr>) m
      else if addr \<in> {0x40, 0x41} then
        upd_regs (\<lambda>r. r\<lparr>mon_smi :=
          merge (mon_smi r) shift16 val 0x097d\<rparr>) m
      else if addr \<in> {0x44, 0x45} then
        upd_regs (\<lambda>r. r\<lparr>devact_sts :=
          w1c (devact_sts r) shift16 val 0x3fef\<rparr>) m
      else if addr \<in> {0x48, 0x49} then
        (let m = upd_regs (\<lambda>r. r\<lparr>devtrap_en :=
                   merge (devtrap_en r) shift16 val 0x3c2f\<rparr>) m
         in if trap_update (dev m) then do_call Trap_update m else m)
      else if 0x4c \<le> addr \<and> addr \<le> 0x4d then
        upd_regs (\<lambda>r. r\<lparr>bus_addr_track :=
          merge (bus_addr_track r) shift16 val 0x097d\<rparr>) m
      else if addr = 0x4e then
        upd_regs (\<lambda>r. r\<lparr>bus_cyc_track := val\<rparr>) m
      else if 0x60 \<le> addr \<and> addr \<le> 0x70 then
        do_call (Tco_write addr val) m
      else
        (let m = acpi_reg_write_common_regs sz addr val m;
             m = (if addr = 0x04 \<and> val AND 4 \<noteq> 0 \<and> smi_en (regs (dev m)) AND 4 \<noteq> 0 then
                    (let m = upd_regs (\<lambda>r. r\<lparr>smi_sts := 0x00000004\<rparr>) m
                     in acpi_raise_smi 1 m)
                  else m)
         in if addr = 0x02 \<or> val AND 0x20 \<noteq> 0 \<or> glbsts (regs (dev m)) AND 0x0020 \<noteq> 0
            then acpi_update_irq m else m))"

definition acpi_reg_write_intel ::
  "32 word \<Rightarrow> 16 word \<Rightarrow> 8 word \<Rightarrow> machine \<Rightarrow> machine" where
  "acpi_reg_write_intel sz addr val m =
     (let addr = addr AND 0x3f;
          shift16 = unat (push_bit 3 (addr AND 1));
          shift32 = unat (push_bit 3 (addr AND 3))
      in
      if addr \<in> {0x0c, 0x0d} then
        upd_regs (\<lambda>r. r\<lparr>gpsts := w1c (gpsts r) shift16 val 0x0f81\<rparr>) m
      else if addr \<in> {0x0e, 0x0f} then
        upd_regs (\<lambda>r. r\<lparr>gpen := merge (gpen r) shift16 val 0x0f01\<rparr>) m
      else if addr \<in> {0x10, 0x11, 0x13} then
        upd_regs (\<lambda>r. r\<lparr>pcntrl := merge (pcntrl r) shift32 val 0x00023e1e\<rparr>) m
      else if addr = 0x12 then
        upd_regs (\<lambda>r. r\<lparr>pcntrl :=
          ((pcntrl r AND NOT (push_bit shift32 0xfd)) OR push_bit shift32 (ucast val))
            AND 0x00023e1e\<rparr>) m
      else if addr \<in> {0x18, 0x19} then
        upd_regs (\<lambda>r. r\<lparr>glbsts := w1c (glbsts r) shift16 val 0x0d27\<rparr>) m
      else if addr \<in> {0x1c, 0x1d, 0x1e, 0x1f} then
        upd_regs (\<lambda>r. r\<lparr>devsts := w1c (devsts r) shift32 val 0x3fff0fff\<rparr>) m
      else if addr \<in> {0x20, 0x21} then
        upd_regs (\<lambda>r. r\<lparr>glben := merge (glben r) shift16 val 0x8d1f\<rparr>) m
      else if addr \<in> {0x28, 0x29, 0x2a, 0x2b} then
        (let m = upd_regs (\<lambda>r. r\<lparr>glbctl := merge (glbctl r) shift32 val 0x0701ff07\<rparr>) m in
         if glbctl (regs (dev m)) AND 0x00000002 \<noteq> 0 then
           (let m = upd_regs (\<lambda>r. r\<lparr>pmsts := pmsts r OR 0x20\<rparr>) m in
            if pmen (regs (dev m)) AND 0x20 \<noteq> 0 then acpi_update_irq m else m)
         else m)
      else if addr \<in> {0x2c, 0x2d, 0x2e, 0x2f} then
        (let m = upd_regs (\<lambda>r. r\<lparr>devctl := merge (devctl r) shift32 val 0x0fffffff\<rparr>) m
         in if trap_update (dev m) then do_call Trap_update m else m)
      else if addr \<in> {0x34, 0x35, 0x36, 0x37} then
        (if sz = 1 then
           upd_regs (\<lambda>r. r\<lparr>gporeg := (gporeg r)[unat (addr AND 3) := val]\<rparr>) m
         else m)
      else
        (let m = acpi_reg_write_common_regs sz addr val m in
         if addr = 0x00 \<and> \<not> (pmsts (regs (dev m)) AND 0x20 \<noteq> 0) then
           upd_regs (\<lambda>r. r\<lparr>glbctl := glbctl r AND NOT 0x0002\<rparr>) m
         else if addr = 0x04 \<and> pmcntrl (regs (dev m)) AND 0x0004 \<noteq> 0 then
           (let m = upd_regs (\<lambda>r. r\<lparr>glbsts := glbsts r OR 0x01\<rparr>) m in
            if glben (regs (dev m)) AND 0x02 \<noteq> 0 then acpi_raise_smi 1 m else m)
         else m))"

definition acpi_reg_write_via_common ::
  "32 word \<Rightarrow> 16 word \<Rightarrow> 8 word \<Rightarrow> machine \<Rightarrow> machine" where
  "acpi_reg_write_via_common sz addr val m =
     (let addr = addr AND 0xff;
          shift16 = unat (push_bit 3 (addr AND 1));
          shift32 = unat (push_bit 3 (addr AND 3))
      in
      if addr \<in> {0x10, 0x11, 0x12, 0x13} then
        upd_regs (\<lambda>r. r\<lparr>pcntrl := merge (pcntrl r) shift32 val 0x0000001e\<rparr>) m
      else if addr \<in> {0x20, 0x21} then
        upd_regs (\<lambda>r. r\<lparr>gpsts := w1c (gpsts r) shift16 val 0x03ff\<rparr>) m
      else if addr \<in> {0x22, 0x23} then
        upd_regs (\<lambda>r. r\<lparr>gpscien := merge (gpscien r) shift16 val 0x03ff\<rparr>) m
      else if addr \<in> {0x24, 0x25} then
        upd_regs (\<lambda>r. r\<lparr>gpsmien := merge (gpsmien r) shift16 val 0x03ff\<rparr>) m
      else if addr \<in> {0x26, 0x27} then
        upd_regs (\<lambda>r. r\<lparr>pscntrl := merge (pscntrl r) shift16 val 0x0701\<rparr>) m
      else if addr = 0x2c then
        (let m = upd_regs (\<lambda>r. r\<lparr>glbctl := (glbctl r AND NOT 0xff) OR (ucast val AND 0xff)\<rparr>) m;
             m = upd_regs (\<lambda>r. r\<lparr>smi_lock := (if glbctl r AND 0x0010 \<noteq> 0 then 1 else 0)\<rparr>) m
         in if glbctl (regs (dev m)) AND 0x0002 \<noteq> 0 then
              (let m = upd_regs (\<lambda>r. r\<lparr>pmsts := pmsts r OR 0x20\<rparr>) m in
               if pmen (regs (dev m)) AND 0x20 \<noteq> 0 then acpi_update_irq m else m)
            else m)
      else if addr = 0x2d then
        (let m = upd_regs (\<lambda>r. r\<lparr>glbctl := w1c (glbctl r) 8 val 0x0100\<rparr>) m
         in if val AND 0x01 \<noteq> 0 then upd_regs (\<lambda>r. r\<lparr>smi_active := 0\<rparr>) m else m)
      else if addr = 0x2f then
        (if sz = 1 then
           (let m = upd_regs (\<lambda>r. r\<lparr>smicmd := val AND 0xff\<rparr>) m;
                m = upd_regs (\<lambda>r. r\<lparr>glbsts := glbsts r OR 0x40\<rparr>) m
            in if glben (regs (dev m)) AND 0x40 \<noteq> 0 then acpi_raise_smi 1 m else m)
         else m)
      else if addr \<in> {0x38, 0x39, 0x3a, 0x3b} then
        upd_regs (\<lambda>r. r\<lparr>gptren := merge (gptren r) shift32 val 0x000000d9\<rparr>) m
      else
        (let m = acpi_reg_write_common_regs sz addr val m in
         if addr = 0x00 \<and> \<not> (pmsts (regs (dev m)) AND 0x20 \<noteq> 0) then
           upd_regs (\<lambda>r. r\<lparr>glbctl := glbctl r AND NOT 0x0002\<rparr>) m
         else if addr = 0x04 \<and> pmcntrl (regs (dev m)) AND 0x0004 \<noteq> 0 then
           (let m = upd_regs (\<lambda>r. r\<lparr>glbsts := glbsts r OR 0x20\<rparr>) m in
            if glben (regs (dev m)) AND 0x20 \<noteq> 0 then acpi_raise_smi 1 m else m)
         else m))"

definition acpi_i2c_set :: "machine \<Rightarrow> machine" where
  "acpi_i2c_set m =
     (let r = regs (dev m) in
      if i2c (dev m) then
        do_call (I2c_gpio_set (\<not> (gpio_dir r AND 0x02 \<noteq> 0) \<or> gpio_val r AND 0x02 \<noteq> 0)
                              (\<not> (gpio_dir r AND 0x04 \<noteq> 0) \<or> gpio_val r AND 0x04 \<noteq> 0)) m
      else m)"

definition acpi_reg_write_via ::
  "32 word \<Rightarrow> 16 word \<Rightarrow> 8 word \<Rightarrow> machine \<Rightarrow> machine" where
  "acpi_reg_write_via sz addr val m =
     (let addr = addr AND 0xff;
          shift16 = unat (push_bit 3 (addr AND 1));
          shift32 = unat (push_bit 3 (addr AND 3))
      in
      if addr \<in> {0x28, 0x29} then
        upd_regs (\<lambda>r. r\<lparr>glbsts := w1c (glbsts r) shift16 val 0x007f\<rparr>) m
      else if addr \<in> {0x2a, 0x2b} then
        upd_regs (\<lambda>r. r\<lparr>glben := merge (glben r) shift16 val 0x007f\<rparr>) m
      else if addr \<in> {0x30, 0x31, 0x32, 0x33} then
        upd_regs (\<lambda>r. r\<lparr>padsts := w1c (padsts r) shift32 val 0x000000fd\<rparr>) m
      else if addr \<in> {0x34, 0x35, 0x36, 0x37} then
        (let m = upd_regs (\<lambda>r. r\<lparr>paden := merge (paden r) shift32 val 0x000000fd\<rparr>) m
         in if trap_update (dev m) then do_call Trap_update m else m)
      else if addr = 0x40 then
        (if sz = 1 then
           (let m = upd_regs (\<lambda>r. r\<lparr>gpio_dir := val AND 0x7f\<rparr>) m in acpi_i2c_set m)
         else m)
      else if addr = 0x42 then
        (if sz = 1 then
           (let m = upd_regs (\<lambda>r. r\<lparr>gpio_val := val AND 0x13\<rparr>) m in acpi_i2c_set m)
         else m)
      else if addr \<in> {0x46, 0x47} then
        upd_regs (\<lambda>r. r\<lparr>gpo_val := merge (gpo_val r) shift16 val 0xffff\<rparr>) m
      else acpi_reg_write_via_common sz addr val m)"

definition acpi_reg_write_via_596b ::
  "32 word \<Rightarrow> 16 word \<Rightarrow> 8 word \<Rightarrow> machine \<Rightarrow> machine" where
  "acpi_reg_write_via_596b sz addr val m =
     (let addr = addr AND 0x7f;
          shift16 = unat (push_bit 3 (addr AND 1));
          shift32 = unat (push_bit 3 (addr AND 3))
      in
      if addr \<in> {0x28, 0x29} then
        upd_regs (\<lambda>r. r\<lparr>glbsts := w1c (glbsts r) shift16 val 0xfdff\<rparr>) m
      else if addr \<in> {0x2a, 0x2b} then
        upd_regs (\<lambda>r. r\<lparr>glben := merge (glben r) shift16 val 0xfdff\<rparr>) m
      else if addr \<in> {0x30, 0x31, 0x32, 0x33} then
        upd_regs (\<lambda>r. r\<lparr>padsts := w1c (padsts r) shift32 val 0x000007ff\<rparr>) m
      else if addr \<in> {0x34, 0x35, 0x36, 0x37} then
        (let m = upd_regs (\<lambda>r. r\<lparr>paden := merge (paden r) shift32 val 0x000007ff\<rparr>) m
         in if trap_update (dev m) then do_call Trap_update m else m)
      else if addr = 0x40 then
        upd_regs (\<lambda>r. r\<lparr>extiotrapsts := extiotrapsts r AND NOT (val AND 0x13)\<rparr>) m
      else if addr = 0x42 then
        upd_regs (\<lambda>r. r\<lparr>extiotrapen := val AND 0x13\<rparr>) m
      else if addr \<in> {0x4c, 0x4d, 0x4e, 0x4f} then
        upd_regs (\<lambda>r. r\<lparr>gpo_val := merge (gpo_val r) shift32 val 0x7fffffff\<rparr>) m
      else acpi_reg_write_via_common sz addr val m)"

definition acpi_reg_write_smc ::
  "32 word \<Rightarrow> 16 word \<Rightarrow> 8 word \<Rightarrow> machine \<Rightarrow> machine" where
  "acpi_reg_write_smc sz addr val m =
     (let addr = addr AND 0x0f;
          m = acpi_reg_write_common_regs sz addr val m
      in
      if addr = 0x00 \<and> \<not> (pmsts (regs (dev m)) AND 0x20 \<noteq> 0) then
        upd_regs (\<lambda>r. r\<lparr>glbctl := glbctl r AND NOT 0x0001\<rparr>) m
      else if addr = 0x04 \<and> pmcntrl (regs (dev m)) AND 0x0004 \<noteq> 0 then
        (let m = upd_regs (\<lambda>r. r\<lparr>glbsts := glbsts r OR 0x01\<rparr>) m in
         if glben (regs (dev m)) AND 0x01 \<noteq> 0 then acpi_raise_smi 1 m else m)
      else m)"

text \<open>The dispatch on the profile, and the byte, word and long entry points of the window.\<close>

definition acpi_reg_write_common ::
  "32 word \<Rightarrow> 16 word \<Rightarrow> 8 word \<Rightarrow> machine \<Rightarrow> machine" where
  "acpi_reg_write_common sz addr val m =
     (if vendor (dev m) = VEN_ALI then acpi_reg_write_ali sz addr val m
      else if vendor (dev m) = VEN_VIA then acpi_reg_write_via sz addr val m
      else if vendor (dev m) = VEN_VIA_596B then acpi_reg_write_via_596b sz addr val m
      else if vendor (dev m) = VEN_INTEL then acpi_reg_write_intel sz addr val m
      else if vendor (dev m) = VEN_INTEL_ICH2 then acpi_reg_write_intel_ich2 sz addr val m
      else if vendor (dev m) = VEN_SMC then acpi_reg_write_smc sz addr val m
      else m)"

definition acpi_reg_write :: "16 word \<Rightarrow> 8 word \<Rightarrow> machine \<Rightarrow> machine" where
  "acpi_reg_write addr val m = acpi_reg_write_common 1 addr val m"

definition acpi_reg_writew :: "16 word \<Rightarrow> 16 word \<Rightarrow> machine \<Rightarrow> machine" where
  "acpi_reg_writew addr val m =
     (let m = acpi_reg_write_common 2 addr (ucast (val AND 0xff)) m
      in acpi_reg_write_common 2 (addr + 1) (ucast (drop_bit 8 val AND 0xff)) m)"

definition acpi_reg_writel :: "16 word \<Rightarrow> 32 word \<Rightarrow> machine \<Rightarrow> machine" where
  "acpi_reg_writel addr val m =
     (let m = acpi_reg_write_common 4 addr (ucast (val AND 0xff)) m;
          m = acpi_reg_write_common 4 (addr + 1) (ucast (drop_bit 8 val AND 0xff)) m;
          m = acpi_reg_write_common 4 (addr + 2) (ucast (drop_bit 16 val AND 0xff)) m
      in acpi_reg_write_common 4 (addr + 3) (ucast (drop_bit 24 val AND 0xff)) m)"

section \<open>The auxiliary window of the SMC profile\<close>

definition acpi_aux_reg_read_smc :: "32 word \<Rightarrow> 16 word \<Rightarrow> machine \<Rightarrow> 32 word" where
  "acpi_aux_reg_read_smc sz addr m =
     (let r = regs (dev m);
          addr = addr AND 0x07;
          shift16 = unat (push_bit 3 (addr AND 1))
      in
      if addr \<in> {0x00, 0x01} then drop_bit shift16 (pcntrl r) AND 0xff
      else if addr \<in> {0x02, 0x03} then drop_bit shift16 (ucast (gpscien r)) AND 0xff
      else if addr \<in> {0x04, 0x05} then drop_bit shift16 (glbsts r) AND 0xff
      else if addr = 0x06 then glben r AND 0xff
      else if addr = 0x07 then glbctl r AND 0xff
      else 0x00000000)"

definition acpi_aux_reg_write_smc ::
  "32 word \<Rightarrow> 16 word \<Rightarrow> 8 word \<Rightarrow> machine \<Rightarrow> machine" where
  "acpi_aux_reg_write_smc sz addr val m =
     (let addr = addr AND 0x07;
          shift16 = unat (push_bit 3 (addr AND 1))
      in
      if addr \<in> {0x00, 0x01} then
        upd_regs (\<lambda>r. r\<lparr>gpscists :=
          w1c (gpscists r) shift16 val 0x000c\<rparr>) m
      else if addr \<in> {0x02, 0x03} then
        upd_regs (\<lambda>r. r\<lparr>gpscien :=
          merge (gpscien r) shift16 val 0x3fff\<rparr>) m
      else if addr \<in> {0x04, 0x05} then
        upd_regs (\<lambda>r. r\<lparr>glbsts :=
          w1c (glbsts r) shift16 val 0x001f\<rparr>) m
      else if addr = 0x06 then
        upd_regs (\<lambda>r. r\<lparr>glben := ucast (ucast (val AND 0x03) :: 16 word)\<rparr>) m
      else if addr = 0x07 then
        (let m = upd_regs (\<lambda>r. r\<lparr>glbctl := ucast (ucast (val AND 0x03) :: 16 word)\<rparr>) m;
             m = (if glbctl (regs (dev m)) AND 0x0001 \<noteq> 0 then
                    (let m = upd_regs (\<lambda>r. r\<lparr>pmsts := pmsts r OR 0x20\<rparr>) m in
                     if pmen (regs (dev m)) AND 0x20 \<noteq> 0 then acpi_update_irq m else m)
                  else m)
         in if glbctl (regs (dev m)) AND 0x0002 \<noteq> 0 then
              (let m = upd_regs (\<lambda>r. r\<lparr>pmsts := pmsts r OR 0x10\<rparr>) m in
               if pmcntrl (regs (dev m)) AND 0x02 \<noteq> 0 then acpi_update_irq m else m)
            else m)
      else m)"

text \<open>
  The dispatchers of the auxiliary window. The read returns \<open>0xff\<close> on every profile but
  SMC, and passes the SMC value through a \<open>uint8_t\<close>.
\<close>

definition acpi_aux_reg_read_common :: "32 word \<Rightarrow> 16 word \<Rightarrow> machine \<Rightarrow> 32 word" where
  "acpi_aux_reg_read_common sz addr m =
     (let ret = (0xff :: 8 word);
          ret = (if vendor (dev m) = VEN_SMC then ucast (acpi_aux_reg_read_smc sz addr m)
                 else ret)
      in ucast ret)"

definition acpi_aux_reg_write_common ::
  "32 word \<Rightarrow> 16 word \<Rightarrow> 8 word \<Rightarrow> machine \<Rightarrow> machine" where
  "acpi_aux_reg_write_common sz addr val m =
     (if vendor (dev m) = VEN_SMC then acpi_aux_reg_write_smc sz addr val m else m)"

definition acpi_aux_reg_read :: "16 word \<Rightarrow> machine \<Rightarrow> 8 word" where
  "acpi_aux_reg_read addr m = ucast (acpi_aux_reg_read_common 1 addr m)"

definition acpi_aux_reg_write :: "16 word \<Rightarrow> 8 word \<Rightarrow> machine \<Rightarrow> machine" where
  "acpi_aux_reg_write addr val m = acpi_aux_reg_write_common 1 addr val m"

section \<open>Construction and reset\<close>

text \<open>The register file after \<open>memset(&dev->regs, 0x00, sizeof(acpi_regs_t))\<close>.\<close>

definition regs_zero :: acpi_regs where
  "regs_zero =
     \<lparr>plvl2 = 0, plvl3 = 0, smicmd = 0, gpio_dir = 0, gpio_val = 0, ali_soft_smi = 0,
      timer32 = 0, gpireg = [0, 0, 0], gporeg = [0, 0, 0, 0], extiotrapsts = 0,
      extiotrapen = 0, bus_cyc_track = 0, pmsts = 0, pmen = 0, pmcntrl = 0, gpsts = 0,
      gpsts1 = 0, gpen = 0, gpen1 = 0, gpscien = 0, gpsmien = 0, pscntrl = 0, gpscists = 0,
      mon_smi = 0, devact_sts = 0, devtrap_en = 0, bus_addr_track = 0, smi_lock = 0,
      smi_active = 0, gpcntrl = 0, pcntrl = 0, glbsts = 0, devsts = 0, glben = 0, glbctl = 0,
      devctl = 0, padsts = 0, paden = 0, gptren = 0, gpo_val = 0, gpi_val = 0,
      extsmi_val = 0, smi_en = 0, smi_sts = 0\<rparr>"

text \<open>
  \<open>acpi_reset\<close>. It clears the register file, so the timer width set by
  \<open>acpi_set_timer32\<close> is cleared with it.
\<close>

definition acpi_reset :: "machine \<Rightarrow> machine" where
  "acpi_reset m =
     (let m = upd_regs (\<lambda>r. regs_zero) m;
          m = upd_regs (\<lambda>r. r\<lparr>gpireg := (gpireg r)[0 := 0xff]\<rparr>) m;
          m = upd_regs (\<lambda>r. r\<lparr>gpireg := (gpireg r)[1 := 0xff]\<rparr>) m;
          m = upd_regs (\<lambda>r. r\<lparr>gpireg := (gpireg r)[2 := gpireg2_default (dev m)]\<rparr>) m;
          m = fold (\<lambda>i. upd_regs (\<lambda>r. r\<lparr>gporeg := (gporeg r)[i := gporeg_default (dev m) ! i]\<rparr>))
                [0, 1, 2, 3] m;
          m = (if vendor (dev m) = VEN_VIA_596B then
                 (let m = upd_regs (\<lambda>r. r\<lparr>gpo_val := 0x7fffffff\<rparr>) m;
                      m = upd_regs (\<lambda>r. r\<lparr>gpi_val := 0xfff57fc1\<rparr>) m
                  in if machine_internal_name m = ''ficva503a''
                        \<or> machine_internal_name m = ''6via90ap''
                     then upd_regs (\<lambda>r. r\<lparr>gpi_val := gpi_val r OR 0x00000004\<rparr>) m
                     else m)
               else m);
          m = upd_regs (\<lambda>r. r\<lparr>pmsts := pmsts r OR 0x8000\<rparr>) m
      in m\<lparr>acpi_rtc_status := 0\<rparr>)"

text \<open>The device after \<open>malloc\<close>, \<open>memset\<close> and \<open>dev->vendor = info->local\<close>.\<close>

definition acpi_zeroed :: "vendor \<Rightarrow> acpi" where
  "acpi_zeroed local =
     \<lparr>regs = regs_zero, vendor = local, slot = 0, irq_mode = 0, irq_pin = 0, irq_line = 0,
      mirq_is_level = 0, suspend_types = [0, 0, 0, 0, 0, 0, 0, 0], gpireg2_default = 0,
      gporeg_default = [0, 0, 0, 0], i2c = False, trap_update = False\<rparr>"

definition upd_dev :: "(acpi \<Rightarrow> acpi) \<Rightarrow> machine \<Rightarrow> machine" where
  "upd_dev f m = m\<lparr>dev := f (dev m)\<rparr>"

text \<open>
  \<open>acpi_init\<close> for \<open>info->local = local\<close>, when the allocation succeeds. The
  assignment to \<open>cpu_to_acpi\<close> is part of the environment's \<open>clock\<close>.
\<close>

definition acpi_init :: "vendor \<Rightarrow> machine \<Rightarrow> machine" where
  "acpi_init local m =
     (let m = m\<lparr>dev := acpi_zeroed local\<rparr>;
          m = upd_dev (\<lambda>d. d\<lparr>irq_line := 9\<rparr>) m;
          m = (if local = VEN_INTEL \<or> local = VEN_ALI \<or> local = VEN_INTEL_ICH2 then
                 (let m = (if local = VEN_ALI then upd_dev (\<lambda>d. d\<lparr>irq_mode := 2\<rparr>) m else m);
                      m = do_call Device_add_apm m
                  in if local = VEN_ALI then do_call (Io_sethandler 0x00b1 0x0003) m
                     else do_call (Io_sethandler 0x00b2 0x0002) m)
               else if local = VEN_VIA then
                 (let m = do_call I2c_gpio_init m;
                      m = upd_dev (\<lambda>d. d\<lparr>i2c := True\<rparr>) m
                  in do_call I2c_smbus_assign m)
               else m);
          m = (case local of
                 VEN_ALI \<Rightarrow> upd_dev (\<lambda>d. d\<lparr>suspend_types := (suspend_types d)
                   [0 := SUS_POWER_OFF,
                    1 := SUS_POWER_OFF,
                    2 := SUS_SUSPEND OR SUS_NVR OR SUS_RESET_CPU OR SUS_RESET_PCI,
                    3 := SUS_SUSPEND]\<rparr>) m
               | VEN_VIA \<Rightarrow> upd_dev (\<lambda>d. d\<lparr>suspend_types := (suspend_types d)
                   [0 := SUS_POWER_OFF,
                    2 := SUS_SUSPEND]\<rparr>) m
               | VEN_VIA_596B \<Rightarrow> upd_dev (\<lambda>d. d\<lparr>suspend_types := (suspend_types d)
                   [1 := SUS_SUSPEND OR SUS_NVR OR SUS_RESET_CPU OR SUS_RESET_PCI,
                    2 := SUS_POWER_OFF,
                    4 := SUS_SUSPEND,
                    5 := SUS_SUSPEND OR SUS_RESET_CPU,
                    6 := SUS_SUSPEND OR SUS_RESET_CPU OR SUS_RESET_PCI]\<rparr>) m
               | VEN_INTEL \<Rightarrow> upd_dev (\<lambda>d. d\<lparr>suspend_types := (suspend_types d)
                   [0 := SUS_POWER_OFF,
                    1 := SUS_SUSPEND OR SUS_NVR OR SUS_RESET_CPU OR SUS_RESET_PCI,
                    2 := SUS_SUSPEND OR SUS_RESET_CPU,
                    3 := SUS_SUSPEND OR SUS_RESET_CACHE,
                    4 := SUS_SUSPEND]\<rparr>) m
               | VEN_INTEL_ICH2 \<Rightarrow> upd_dev (\<lambda>d. d\<lparr>suspend_types := (suspend_types d)
                   [1 := SUS_SUSPEND OR SUS_RESET_CPU,
                    5 := SUS_SUSPEND OR SUS_NVR OR SUS_RESET_CPU OR SUS_RESET_PCI,
                    6 := SUS_POWER_OFF,
                    7 := SUS_POWER_OFF]\<rparr>) m
               | VEN_SMC \<Rightarrow> m);
          m = do_call (Timer_add Timer) m;
          m = do_call (Timer_add Resume_timer) m
      in acpi_reset m)"

definition acpi_set_timer32 :: "8 word \<Rightarrow> machine \<Rightarrow> machine" where
  "acpi_set_timer32 t32 m = upd_regs (\<lambda>r. r\<lparr>timer32 := t32\<rparr>) m"

text \<open>
  An emulator to run the examples on: no call made yet, the reference clock at
  \<open>clk\<close>, and a device of the given profile just constructed.
\<close>

definition power_on :: "vendor \<Rightarrow> 64 word \<Rightarrow> machine" where
  "power_on local clk =
     acpi_init local
       \<lparr>dev = acpi_zeroed local, acpi_rtc_status = 0, clock = clk,
        TIMER_USEC = 0x4200000000, machine_internal_name = ''p2bls'', calls = []\<rparr>"

text \<open>
  States a guest reaches from power-on with byte writes, for the examples below:
  an ALi and an ICH2 device with a bit of GPE0_EN set, an ICH2 device with SLP_SMI_EN
  (bit 4 of SMI_EN) set, an Intel device with the timer-overflow interrupt enabled, before
  and after the counter overflowed, and a VIA device with SMI generation enabled, without
  and with the SMI lock.
\<close>

definition ali_gpe0_enabled :: machine where
  "ali_gpe0_enabled = acpi_reg_write 0x1b 0x04 (power_on VEN_ALI 0)"

definition ich2_gpe0_enabled :: machine where
  "ich2_gpe0_enabled = acpi_reg_write 0x2b 0x01 (power_on VEN_INTEL_ICH2 0)"

definition ich2_slp_smi_en :: machine where
  "ich2_slp_smi_en = acpi_reg_write 0x30 0x10 (power_on VEN_INTEL_ICH2 0)"

definition intel_tmrof_en :: machine where
  "intel_tmrof_en = acpi_reg_write 0x02 0x01 (power_on VEN_INTEL 0x123456)"

definition intel_tmrof_pending :: machine where
  "intel_tmrof_pending = acpi_timer_overflow intel_tmrof_en"

definition via_smi_en :: machine where
  "via_smi_en = acpi_reg_write 0x2c 0x01 (power_on VEN_VIA 0)"

definition via_smi_locked :: machine where
  "via_smi_locked = acpi_raise_smi 1 (acpi_reg_write 0x2c 0x11 (power_on VEN_VIA 0))"

text \<open>
  States in which a status bit is set, reached from power-on with one byte write: the
  global-release bit of PMCNTRL sets bit 0 of \<open>gpsts1\<close> (ALi) and of \<open>glbsts\<close>
  (Intel), a trapped sleep write sets bit 4 of \<open>smi_sts\<close> (ICH2), and a write to the SMI
  command port sets bit 6 of \<open>glbsts\<close> (VIA).
\<close>

definition ali_gbl_rls :: machine where
  "ali_gbl_rls = acpi_reg_write 0x04 0x04 (power_on VEN_ALI 0)"

definition intel_gbl_rls :: machine where
  "intel_gbl_rls = acpi_reg_write 0x04 0x04 (power_on VEN_INTEL 0)"

definition ich2_slp_trapped :: machine where
  "ich2_slp_trapped = acpi_reg_write 0x05 0x24 ich2_slp_smi_en"

definition via_smi_cmd :: machine where
  "via_smi_cmd = acpi_reg_write 0x2f 0xab (power_on VEN_VIA 0)"

text \<open>
  An SMC device on which an SCI status is pending and the processor control register
  holds \<open>0x1234\<close>. No handler of acpi.c sets a bit of \<open>gpscists\<close> or writes
  \<open>pcntrl\<close> on this profile, so the two fields are set directly.
\<close>

definition smc_sci_pending :: machine where
  "smc_sci_pending =
     upd_regs (\<lambda>r. r\<lparr>gpscists := 0x000c, pcntrl := 0x1234\<rparr>) (power_on VEN_SMC 0)"

text \<open>
  The claim about the overflow period, in its own words: the ticks from the current
  timer value to the next crossing of \<open>0x1000000\<close> (24-bit) or \<open>0x100000000\<close>
  (32-bit).
\<close>

definition spec_time_to_overflow :: "machine \<Rightarrow> nat" where
  "spec_time_to_overflow m =
     (if timer32 (regs (dev m)) \<noteq> 0 then 0x100000000 - unat (acpi_timer_get m)
      else 0x1000000 - unat (acpi_timer_get m))"

section \<open>Basic facts about the state\<close>

lemma upd_regs_simps [simp]:
  "regs (dev (upd_regs f m)) = f (regs (dev m))"
  "vendor (dev (upd_regs f m)) = vendor (dev m)"
  "suspend_types (dev (upd_regs f m)) = suspend_types (dev m)"
  "trap_update (dev (upd_regs f m)) = trap_update (dev m)"
  "calls (upd_regs f m) = calls m"
  "clock (upd_regs f m) = clock m"
  "TIMER_USEC (upd_regs f m) = TIMER_USEC m"
  "acpi_rtc_status (upd_regs f m) = acpi_rtc_status m"
  by (simp_all add: upd_regs_def)

lemma do_call_simps [simp]:
  "dev (do_call c m) = dev m"
  "calls (do_call c m) = calls m @ [c]"
  "clock (do_call c m) = clock m"
  "TIMER_USEC (do_call c m) = TIMER_USEC m"
  "acpi_rtc_status (do_call c m) = acpi_rtc_status m"
  by (simp_all add: do_call_def)

lemma update_irq_dev: "dev (acpi_update_irq m) = dev m"
  by (simp add: acpi_update_irq_def acpi_timer_update_def Let_def)

subsection \<open>Words\<close>

lemma and_not_mask_sub: "(a::'a::len word) AND NOT (mask n) = a - take_bit n a"
proof -
  have "a AND NOT (mask n) = push_bit n (drop_bit n a)"
    by (rule bit_word_eqI) (auto simp: bit_simps)
  moreover have "push_bit n (drop_bit n a) + take_bit n a = a"
    by (rule bits_ident)
  ultimately show ?thesis
    by (metis add_diff_cancel_right')
qed

lemma unat_take_bit_mod: "unat (take_bit n (w::'a::len word)) = unat w mod 2 ^ n"
  unfolding unsigned_take_bit_eq by (rule take_bit_eq_mod)

lemma take_bit_add_pow:
  assumes le: "n \<le> LENGTH('a)" and p: "unat ((2::'a::len word) ^ n) = 2 ^ n"
  shows "take_bit n ((t::'a word) + 2 ^ n) = take_bit n t"
proof -
  have dvd: "(2::nat) ^ n dvd 2 ^ LENGTH('a)"
    using le by (simp add: le_imp_power_dvd)
  have "unat (take_bit n (t + 2 ^ n)) = ((unat t + 2 ^ n) mod 2 ^ LENGTH('a)) mod 2 ^ n"
    by (simp only: unat_take_bit_mod unat_word_ariths p)
  also have "\<dots> = (unat t + 2 ^ n) mod 2 ^ n"
    using dvd by (rule mod_mod_cancel)
  also have "\<dots> = unat (take_bit n t)"
    by (simp add: unat_take_bit_mod)
  finally show ?thesis
    by (rule word_unat_eq_iff [THEN iffD2])
qed

lemma unat_pow_minus_take_bit:
  assumes p: "unat ((2::'a::len word) ^ n) = 2 ^ n"
  shows "unat ((2::'a word) ^ n - take_bit n t) = 2 ^ n - unat t mod 2 ^ n"
proof -
  have lt: "unat (take_bit n t) < 2 ^ n"
    by (simp add: unat_take_bit_mod)
  have "take_bit n t \<le> 2 ^ n"
    using lt p by (simp add: word_le_nat_alt)
  then have "unat ((2::'a word) ^ n - take_bit n t) = unat ((2::'a word) ^ n) - unat (take_bit n t)"
    by (rule unat_sub)
  then show ?thesis
    by (simp only: p unat_take_bit_mod)
qed

lemma ticks_to_boundary:
  assumes "n \<le> LENGTH('a)" and "unat ((2::'a::len word) ^ n) = 2 ^ n"
  shows "unat (((t::'a::len word) + 2 ^ n AND NOT (mask n)) - t) = 2 ^ n - unat t mod 2 ^ n"
  using assms by (simp add: and_not_mask_sub take_bit_add_pow unat_pow_minus_take_bit)

lemma ticks32:
  "unat ((((t::64 word) + 0x80000000) AND NOT 0x7fffffff) - t) = 0x80000000 - unat t mod 0x80000000"
  using ticks_to_boundary [of 31 t] by (simp add: mask_eq_exp_minus_1)

lemma ticks24:
  "unat ((((t::64 word) + 0x800000) AND NOT 0x7fffff) - t) = 0x800000 - unat t mod 0x800000"
  using ticks_to_boundary [of 23 t] by (simp add: mask_eq_exp_minus_1)

lemma unat_timer32:
  "unat (ucast ((c::64 word) AND 0xffffffff) :: 32 word) = unat c mod 0x100000000"
proof -
  have "(c AND 0xffffffff) = take_bit 32 c"
    by (simp add: take_bit_eq_mask mask_eq_exp_minus_1)
  then have "unat (ucast (c AND 0xffffffff) :: 32 word) = take_bit 32 (unat c mod 2 ^ 32)"
    by (simp only: unsigned_ucast_eq unat_take_bit_mod len_of_numeral_defs) simp
  then show ?thesis
    by (simp add: take_bit_eq_mod)
qed

lemma unat_timer24:
  "unat (ucast ((c::64 word) AND 0xffffff) :: 32 word) = unat c mod 0x1000000"
proof -
  have "(c AND 0xffffff) = take_bit 24 c"
    by (simp add: take_bit_eq_mask mask_eq_exp_minus_1)
  then have "unat (ucast (c AND 0xffffff) :: 32 word) = take_bit 32 (unat c mod 2 ^ 24)"
    by (simp only: unsigned_ucast_eq unat_take_bit_mod len_of_numeral_defs) simp
  also have "\<dots> = unat c mod 2 ^ 24 mod 2 ^ 32"
    by (rule take_bit_eq_mod)
  also have "\<dots> = unat c mod 2 ^ 24"
    by (rule mod_less) (rule less_trans [of _ "2 ^ 24"], simp_all)
  finally show ?thesis by simp
qed

lemma mod_half32: "(x::nat) mod 0x100000000 mod 0x80000000 = x mod 0x80000000"
  by (rule mod_mod_cancel) simp

lemma mod_half24: "(x::nat) mod 0x1000000 mod 0x800000 = x mod 0x800000"
  by (rule mod_mod_cancel) simp

text \<open>
  What \<open>w1c\<close> does to a 16-bit register: it clears the bits written as 1 under the mask,
  leaves the bits outside the mask alone and sets none.
\<close>

lemma w1c_16: "w1c (v::16 word) n b k = v AND NOT (push_bit n (ucast b) AND ucast k)"
  unfolding w1c_def by (rule bit_word_eqI) (auto simp: bit_simps)

lemma w1c_frame: "((v::'a::len word) AND NOT (b AND k)) AND NOT k = v AND NOT k"
  by (rule bit_word_eqI) (auto simp: bit_simps)

lemma w1c_no_set: "((v::'a::len word) AND NOT (b AND k)) AND NOT v = 0"
  by (rule bit_word_eqI) (auto simp: bit_simps)

lemma ucast_low_byte:
  "(ucast (ucast ((x::32 word) AND 0xff) :: 8 word) :: 32 word) = x AND 0xff"
proof -
  have "(ucast (ucast (x AND mask 8) :: 8 word) :: 32 word) = x AND mask 8"
    by (rule bit_word_eqI) (auto simp: bit_simps)
  then show ?thesis
    by (simp add: mask_eq_exp_minus_1)
qed

subsection \<open>The timer\<close>

lemma unat_time_to_overflow:
  "unat (time_to_overflow m) =
     (if timer32 (regs (dev m)) \<noteq> 0 then 0x80000000 - unat (clock m) mod 0x80000000
      else 0x800000 - unat (clock m) mod 0x800000)"
proof (cases "timer32 (regs (dev m)) = 0")
  case True
  then have "unat (time_to_overflow m) = 0x800000 - unat (clock m) mod 0x800000"
    unfolding time_to_overflow_def acpi_clock_get_def Let_def
    by (simp only: ticks24 if_False simp_thms)
  with True show ?thesis by simp
next
  case False
  then have "unat (time_to_overflow m) = 0x80000000 - unat (clock m) mod 0x80000000"
    unfolding time_to_overflow_def acpi_clock_get_def Let_def
    by (simp only: ticks32 if_True simp_thms)
  with False show ?thesis by simp
qed

lemma unat_timer_get_mod:
  "unat (acpi_timer_get m) mod (if timer32 (regs (dev m)) \<noteq> 0 then 0x80000000 else 0x800000) =
   unat (clock m) mod (if timer32 (regs (dev m)) \<noteq> 0 then 0x80000000 else 0x800000)"
proof (cases "timer32 (regs (dev m)) = 0")
  case True
  then have "unat (acpi_timer_get m) mod 0x800000 = unat (clock m) mod 0x800000"
    unfolding acpi_timer_get_def acpi_clock_get_def Let_def
    by (simp only: unat_timer24 mod_half24 if_False simp_thms)
  with True show ?thesis by simp
next
  case False
  then have "unat (acpi_timer_get m) mod 0x80000000 = unat (clock m) mod 0x80000000"
    unfolding acpi_timer_get_def acpi_clock_get_def Let_def
    by (simp only: unat_timer32 mod_half32 if_True simp_thms)
  with False show ?thesis by simp
qed

subsection \<open>The auxiliary window\<close>

lemma aux_read_ignores_gpscists:
  "acpi_aux_reg_read_common sz a (upd_regs (\<lambda>r. r\<lparr>gpscists := f r\<rparr>) m) =
     acpi_aux_reg_read_common sz a m"
  by (simp add: acpi_aux_reg_read_common_def acpi_aux_reg_read_smc_def Let_def)

subsection \<open>Enable registers that merge into themselves\<close>

text \<open>
  The enable register PMEN of the common block and the GPE0 enable register of the ALi
  and ICH2 profiles: the written byte is merged into the old value of the register that is
  written.
\<close>

lemma pmen_write_merges_pmen:
  assumes "addr AND 0x3f = 0x02 \<or> addr AND 0x3f = 0x03"
  shows "regs (dev (acpi_reg_write_common_regs sz addr val m)) =
           (regs (dev m))\<lparr>pmen :=
              merge (pmen (regs (dev m))) (if addr AND 0x3f = 0x02 then 0 else 8) val 0x0521\<rparr>"
  using assms
  by (elim disjE) (simp_all add: acpi_reg_write_common_regs_def Let_def update_irq_dev)

lemma ali_gpe0_enable_merges_gpen:
  assumes "addr AND 0x3f = 0x1a \<or> addr AND 0x3f = 0x1b"
  shows "regs (dev (acpi_reg_write_ali sz addr val m)) =
           (regs (dev m))\<lparr>gpen :=
              merge (gpen (regs (dev m))) (if addr AND 0x3f = 0x1a then 0 else 8) val 0x0d07\<rparr>"
  using assms
  by (elim disjE) (simp_all add: acpi_reg_write_ali_def Let_def)

lemma ich2_gpe0_enable_merges_gpen:
  assumes "addr AND 0x7f = 0x2a \<or> addr AND 0x7f = 0x2b"
  shows "regs (dev (acpi_reg_write_intel_ich2 sz addr val m)) =
           (regs (dev m))\<lparr>gpen :=
              merge (gpen (regs (dev m))) (if addr AND 0x7f = 0x2a then 0 else 8) val 0x097d\<rparr>"
  using assms
  by (elim disjE) (simp_all add: acpi_reg_write_intel_ich2_def Let_def)

subsection \<open>The sleep trap of ICH2, when it is taken\<close>

text \<open>
  With SLP_SMI_EN set, a sleep-enable byte with bit 2 set is trapped: bit 4 of SMI_STS is
  set, \<open>acpi_raise_smi\<close> is called, the byte is merged into the control register, and no
  part of the sleep sequence runs.
\<close>

lemma ich2_sleep_trap_taken:
  assumes "vendor (dev m) = VEN_INTEL_ICH2" and "smi_en (regs (dev m)) AND 0x10 \<noteq> 0"
    and "addr AND 0x3f = 0x05" and "val AND 0x20 \<noteq> 0" and "val AND 4 \<noteq> 0"
  shows "acpi_reg_write_common_regs sz addr val m =
           upd_regs (\<lambda>r. r\<lparr>pmcntrl := merge (pmcntrl r) 8 val 0x3f07\<rparr>)
             (acpi_raise_smi 1 (upd_regs (\<lambda>r. r\<lparr>smi_sts := smi_sts r OR 0x10\<rparr>) m))"
  using assms
  by (simp add: acpi_reg_write_common_regs_def Let_def)

subsection \<open>The sleep-enable write, from the entry point\<close>

text \<open>
  A byte with the sleep-enable bit written to offset 5 through the dispatcher reaches
  \<open>acpi_reg_write_common_regs\<close> on every profile. The handlers of five profiles add
  nothing to it; the ICH2 handler calls \<open>acpi_update_irq\<close> afterwards, which changes no
  register.
\<close>

lemma sleep_write_dispatch:
  assumes v: "val AND 0x20 \<noteq> 0"
  shows "acpi_reg_write_common sz 0x05 val m =
           (if vendor (dev m) = VEN_INTEL_ICH2
            then acpi_update_irq (acpi_reg_write_common_regs sz 0x05 val m)
            else acpi_reg_write_common_regs sz 0x05 val m)"
  using v
  by (cases "vendor (dev m)")
    (simp_all add: acpi_reg_write_common_def acpi_reg_write_ali_def acpi_reg_write_via_def
      acpi_reg_write_via_common_def acpi_reg_write_via_596b_def acpi_reg_write_intel_def
      acpi_reg_write_intel_ich2_def acpi_reg_write_smc_def Let_def)

subsection \<open>Rounding to double\<close>

text \<open>
  Rounding to the nearest integer is off by at most a half and keeps an integer; hence
  \<open>double_round\<close> has a relative error of at most \<open>2 powi (- 53)\<close> and keeps every
  integer below \<open>2 ^ 53\<close>. The two conversions of \<open>acpi_get_overflow_period\<close> are
  therefore exact, and the division and the multiplication together are off by at most
  \<open>2 powi (- 51)\<close>, relatively.
\<close>

lemma round_half_even_error: "\<bar>of_int (round_half_even y) - y\<bar> \<le> 1 / 2"
proof -
  have "of_int \<lfloor>y\<rfloor> \<le> y" "y < of_int \<lfloor>y\<rfloor> + 1"
    by linarith+
  then show ?thesis
    by (auto simp: round_half_even_def Let_def)
qed

lemma round_half_even_of_int: "round_half_even (of_int k) = k"
  by (simp add: round_half_even_def Let_def)

lemma bitlen_powi:
  assumes "0 < (p::int)"
  shows "2 powi (bitlen p - 1) \<le> (of_int p :: rat)" and "(of_int p :: rat) < 2 powi bitlen p"
proof -
  from assms have b: "2 ^ nat (bitlen p - 1) \<le> p" "p < 2 ^ nat (bitlen p)"
    using bitlen_bounds [of p] by simp_all
  from assms have ge: "1 \<le> bitlen p"
    by (metis bitlen_eq_zero_iff bitlen_nonneg int_one_le_iff_zero_less less_le not_less)
  have "(2::rat) powi (bitlen p - 1) = 2 ^ nat (bitlen p - 1)"
    using ge by (simp add: power_int_def)
  also have "\<dots> = of_int (2 ^ nat (bitlen p - 1))" by simp
  also have "\<dots> \<le> of_int p" using b(1) by (simp only: of_int_le_iff)
  finally show "2 powi (bitlen p - 1) \<le> (of_int p :: rat)" .
  have "(of_int p :: rat) < of_int (2 ^ nat (bitlen p))" using b(2) by (simp only: of_int_less_iff)
  also have "\<dots> = 2 powi bitlen p" using ge by (simp add: power_int_def)
  finally show "(of_int p :: rat) < 2 powi bitlen p" .
qed

lemma double_exponent_bounds:
  assumes "0 < x"
  shows "2 powi double_exponent x \<le> x" and "x < 2 powi (double_exponent x + 1)"
proof -
  obtain p q where pq: "quotient_of x = (p, q)" by (cases "quotient_of x")
  then have q: "0 < q" and x: "x = of_int p / of_int q"
    by (simp_all add: quotient_of_denom_pos quotient_of_div)
  with assms have p: "0 < p"
    by (simp add: zero_less_divide_iff)
  let ?d = "bitlen p - bitlen q"
  have lo: "2 powi (?d - 1) < x"
  proof -
    have "2 powi (?d - 1) = 2 powi (bitlen p - 1) / (2 powi bitlen q :: rat)"
      by (simp add: power_int_diff) 
    also have "\<dots> \<le> of_int p / 2 powi bitlen q"
      using bitlen_powi(1) [OF p] by (simp add: divide_right_mono)
    also have "\<dots> < of_int p / of_int q"
      using bitlen_powi(2) [OF q] p q by (simp add: divide_strict_left_mono)
    finally show ?thesis by (simp add: x)
  qed
  have hi: "x < 2 powi (?d + 1)"
  proof -
    have "x = of_int p / of_int q" by (rule x)
    also have "\<dots> < 2 powi bitlen p / of_int q"
      using bitlen_powi(2) [OF p] q by (simp add: divide_strict_right_mono)
    also have "\<dots> \<le> 2 powi bitlen p / (2 powi (bitlen q - 1) :: rat)"
    proof (rule divide_left_mono)
      show "2 powi (bitlen q - 1) \<le> (of_int q :: rat)"
        by (rule bitlen_powi(1) [OF q])
      show "0 \<le> (2 powi bitlen p :: rat)"
        by simp
      show "0 < (of_int q :: rat) * 2 powi (bitlen q - 1)"
        using q by simp
    qed
    also have "\<dots> = 2 powi (?d + 1)"
      by (simp add: power_int_diff power_int_add)
    finally show ?thesis .
  qed
  show "2 powi double_exponent x \<le> x"
    using lo by (simp add: double_exponent_def pq Let_def)
  show "x < 2 powi (double_exponent x + 1)"
    using hi by (auto simp add: double_exponent_def pq Let_def not_le)
qed


lemma double_round_error:
  assumes "0 < x"
  shows "\<bar>double_round x - x\<bar> \<le> x / 2 ^ 53"
proof -
  let ?e = "double_exponent x"
  let ?y = "x * 2 powi (52 - ?e)"
  have x: "?y * 2 powi (?e - 52) = x"
    by (simp add: power_int_diff)
  have "double_round x = of_int (round_half_even ?y) * 2 powi (?e - 52)"
    using assms by (simp add: double_round_def Let_def)
  then have "double_round x - x = (of_int (round_half_even ?y) - ?y) * 2 powi (?e - 52)"
    using x by (simp add: algebra_simps)
  then have "\<bar>double_round x - x\<bar> = \<bar>of_int (round_half_even ?y) - ?y\<bar> * 2 powi (?e - 52)"
    by (simp add: abs_mult)
  also have "\<dots> \<le> 1 / 2 * 2 powi (?e - 52)"
    by (rule mult_right_mono) (rule round_half_even_error, simp)
  also have "\<dots> = 2 powi ?e / 2 ^ 53"
    by (simp add: power_int_diff)
  also have "\<dots> \<le> x / 2 ^ 53"
    using double_exponent_bounds(1) [OF assms] by (simp add: divide_right_mono)
  finally show ?thesis .
qed

lemma double_round_of_int:
  assumes "0 < n" and "n < 2 ^ 53"
  shows "double_round (of_int n) = of_int n"
proof -
  let ?x = "of_int n :: rat"
  let ?e = "double_exponent ?x"
  have pos: "0 < ?x" using assms by simp
  have "2 powi ?e \<le> ?x" by (rule double_exponent_bounds(1) [OF pos])
  also have "?x < 2 powi 53"
    using assms(2) by (simp add: power_int_def)
  finally have "(2::rat) powi ?e < 2 powi 53" .
  then have "?e < 53"
    by (rule power_int_le_imp_less_exp [rotated]) simp_all
  then have e: "0 \<le> 52 - ?e" by simp
  have "?x * 2 powi (52 - ?e) = of_int (n * 2 ^ nat (52 - ?e))"
    using e by (simp add: power_int_def)
  then have "round_half_even (?x * 2 powi (52 - ?e)) = n * 2 ^ nat (52 - ?e)"
    by (simp only: round_half_even_of_int)
  then have "double_round ?x = of_int (n * 2 ^ nat (52 - ?e)) * 2 powi (?e - 52)"
    using pos by (simp add: double_round_def Let_def)
  also have "\<dots> = ?x * (2 powi (52 - ?e) * 2 powi (?e - 52))"
    using e by (simp add: power_int_def)
  also have "\<dots> = ?x"
    by (simp add: power_int_diff)
  finally show ?thesis .
qed


lemma time_to_overflow_range:
  "0 < uint (time_to_overflow m)" "uint (time_to_overflow m) \<le> 0x80000000"
proof -
  have "0 < unat (time_to_overflow m) \<and> unat (time_to_overflow m) \<le> 0x80000000"
  proof (cases "timer32 (regs (dev m)) = 0")
    case True
    then have "unat (time_to_overflow m) = 0x800000 - unat (clock m) mod 0x800000"
      by (simp add: unat_time_to_overflow)
    moreover have "unat (clock m) mod 0x800000 < 0x800000"
      by simp
    ultimately show ?thesis by arith
  next
    case False
    then have "unat (time_to_overflow m) = 0x80000000 - unat (clock m) mod 0x80000000"
      by (simp add: unat_time_to_overflow)
    moreover have "unat (clock m) mod 0x80000000 < 0x80000000"
      by simp
    ultimately show ?thesis by arith
  qed
  moreover have "uint (time_to_overflow m) = int (unat (time_to_overflow m))"
    by (rule uint_nat)
  ultimately show "0 < uint (time_to_overflow m)" "uint (time_to_overflow m) \<le> 0x80000000"
    by linarith+
qed

lemma overflow_period_unfold:
  "acpi_get_overflow_period m =
     double_round (double_round (of_int (uint (time_to_overflow m)) / 3579545) * 1000000)"
proof -
  have "double_round (of_int (uint (time_to_overflow m))) = of_int (uint (time_to_overflow m))"
    using time_to_overflow_range [of m] by (intro double_round_of_int) simp_all
  moreover have "double_round (of_int ACPI_TIMER_FREQ) = 3579545"
    using double_round_of_int [of 3579545] by (simp add: ACPI_TIMER_FREQ_def)
  ultimately show ?thesis
    by (simp add: acpi_get_overflow_period_def)
qed

lemma double_div_mul_error:
  assumes q: "0 < q"
  shows "\<bar>double_round (double_round q * 1000000) - q * 1000000\<bar> \<le> q * 1000000 / 2 ^ 51"
proof -
  let ?a = "double_round q"
  let ?p = "double_round (?a * 1000000)"
  have a: "\<bar>?a - q\<bar> \<le> q / 9007199254740992"
    using double_round_error [OF q] by simp
  with q have "0 < ?a"
    by linarith
  then have apos: "0 < ?a * 1000000"
    by simp
  have p: "\<bar>?p - ?a * 1000000\<bar> \<le> ?a * 1000000 / 9007199254740992"
    using double_round_error [OF apos] by simp
  from a p q have "\<bar>?p - q * 1000000\<bar> \<le> q * 1000000 / 2251799813685248"
    by linarith
  then show ?thesis
    by simp
qed

lemma time_to_overflow_rat:
  "1 \<le> (of_int (uint (time_to_overflow m)) :: rat)"
  "(of_int (uint (time_to_overflow m)) :: rat) \<le> 2147483648"
proof -
  have "1 \<le> uint (time_to_overflow m)" "uint (time_to_overflow m) \<le> 2147483648"
    using time_to_overflow_range [of m] by linarith+
  then have "(of_int 1 :: rat) \<le> of_int (uint (time_to_overflow m))"
    "(of_int (uint (time_to_overflow m)) :: rat) \<le> of_int 2147483648"
    by (simp_all only: of_int_le_iff)
  then show "1 \<le> (of_int (uint (time_to_overflow m)) :: rat)"
    "(of_int (uint (time_to_overflow m)) :: rat) \<le> 2147483648"
    by (simp_all only: of_int_1 of_int_numeral)
qed

lemma overflow_period_range:
  "1 / 4 \<le> acpi_get_overflow_period m" "acpi_get_overflow_period m \<le> 2 ^ 30"
proof -
  let ?t = "of_int (uint (time_to_overflow m)) :: rat"
  define X where "X = ?t / 3579545 * 1000000"
  have t: "1 \<le> ?t" "?t \<le> 2147483648"
    by (rule time_to_overflow_rat)+
  have q: "0 < ?t / 3579545"
    using t(1) by simp
  have "1 / 3579545 * 1000000 \<le> X"
    unfolding X_def using t(1) by (intro mult_right_mono divide_right_mono) simp_all
  then have lo: "27 / 100 \<le> X"
    by simp
  have "X \<le> 2147483648 / 3579545 * 1000000"
    unfolding X_def using t(2) by (intro mult_right_mono divide_right_mono) simp_all
  then have hi: "X \<le> 600000000"
    by simp
  have "\<bar>acpi_get_overflow_period m - X\<bar> \<le> X / 2 ^ 51"
    unfolding overflow_period_unfold X_def by (rule double_div_mul_error [OF q])
  then have e: "\<bar>acpi_get_overflow_period m - X\<bar> \<le> X / 2251799813685248"
    by simp
  from e lo show "1 / 4 \<le> acpi_get_overflow_period m"
    by linarith
  from e hi lo have "acpi_get_overflow_period m \<le> 1073741824"
    by linarith
  then show "acpi_get_overflow_period m \<le> 2 ^ 30"
    by simp
qed

subsection \<open>Status registers, write by write\<close>

text \<open>
  Every write of acpi.c of the shape \<open>reg &= ~((val << shift) & mask)\<close>, one lemma for
  each: the handler changes that register and no other, to the value before with the
  written byte, in its lane, cleared under the mask. \<open>extiotrapsts\<close> is a byte and has
  no lane. The write to the high byte of PMSTS with bit 2 set also clears
  \<open>acpi_rtc_status\<close>.
\<close>

lemma update_irq_rtc: "acpi_rtc_status (acpi_update_irq m) = acpi_rtc_status m"
  by (simp add: acpi_update_irq_def acpi_timer_update_def Let_def)

lemma w1c_32: "w1c (v::32 word) n b k = v AND NOT (push_bit n (ucast b) AND k)"
  unfolding w1c_def by (rule bit_word_eqI) (auto simp: bit_simps)

lemma w1c_clears: "((v::'a::len word) AND NOT (b AND k)) AND (b AND k) = 0"
  by (rule bit_word_eqI) (auto simp: bit_simps)

lemma lane_masked:
  "(a::16 word) AND k = c \<Longrightarrow> k AND j = j \<Longrightarrow> a AND j = c AND j"
  by (metis and.assoc)

lemma pmsts_w1c:
  assumes "addr AND 0x3f \<in> {0x00, 0x01}"
  shows "regs (dev (acpi_reg_write_common_regs sz addr val m)) =
           (regs (dev m))\<lparr>pmsts := pmsts (regs (dev m))
              AND NOT (push_bit (8 * unat (addr AND 1)) (ucast val) AND 0x8d31)\<rparr>"
  using assms
  apply (elim insertE emptyE)
  apply (frule lane_masked [where k="0x3f" and j=1], simp, simp add: acpi_reg_write_common_regs_def Let_def
      w1c_16 w1c_32 update_irq_dev)+
  done

lemma ali_gpsts_w1c:
  assumes "addr AND 0x3f \<in> {0x18, 0x19}"
  shows "regs (dev (acpi_reg_write_ali sz addr val m)) =
           (regs (dev m))\<lparr>gpsts := gpsts (regs (dev m))
              AND NOT (push_bit (8 * unat (addr AND 1)) (ucast val) AND 0x0d07)\<rparr>"
  using assms
  apply (elim insertE emptyE)
  apply (frule lane_masked [where k="0x3f" and j=1], simp, simp add: acpi_reg_write_ali_def Let_def
      w1c_16 w1c_32)+
  done

lemma ali_gpsts1_w1c:
  assumes "addr AND 0x3f \<in> {0x1c, 0x1d}"
  shows "regs (dev (acpi_reg_write_ali sz addr val m)) =
           (regs (dev m))\<lparr>gpsts1 := gpsts1 (regs (dev m))
              AND NOT (push_bit (8 * unat (addr AND 1)) (ucast val) AND 0x0c01)\<rparr>"
  using assms
  apply (elim insertE emptyE)
  apply (frule lane_masked [where k="0x3f" and j=1], simp, simp add: acpi_reg_write_ali_def Let_def
      w1c_16 w1c_32)+
  done

lemma intel_gpsts_w1c:
  assumes "addr AND 0x3f \<in> {0x0c, 0x0d}"
  shows "regs (dev (acpi_reg_write_intel sz addr val m)) =
           (regs (dev m))\<lparr>gpsts := gpsts (regs (dev m))
              AND NOT (push_bit (8 * unat (addr AND 1)) (ucast val) AND 0x0f81)\<rparr>"
  using assms
  apply (elim insertE emptyE)
  apply (frule lane_masked [where k="0x3f" and j=1], simp, simp add: acpi_reg_write_intel_def Let_def
      w1c_16 w1c_32)+
  done

lemma intel_glbsts_w1c:
  assumes "addr AND 0x3f \<in> {0x18, 0x19}"
  shows "regs (dev (acpi_reg_write_intel sz addr val m)) =
           (regs (dev m))\<lparr>glbsts := glbsts (regs (dev m))
              AND NOT (push_bit (8 * unat (addr AND 1)) (ucast val) AND 0x0d27)\<rparr>"
  using assms
  apply (elim insertE emptyE)
  apply (frule lane_masked [where k="0x3f" and j=1], simp, simp add: acpi_reg_write_intel_def Let_def
      w1c_16 w1c_32)+
  done

lemma intel_devsts_w1c:
  assumes "addr AND 0x3f \<in> {0x1c, 0x1d, 0x1e, 0x1f}"
  shows "regs (dev (acpi_reg_write_intel sz addr val m)) =
           (regs (dev m))\<lparr>devsts := devsts (regs (dev m))
              AND NOT (push_bit (8 * unat (addr AND 3)) (ucast val) AND 0x3fff0fff)\<rparr>"
  using assms
  apply (elim insertE emptyE)
  apply (frule lane_masked [where k="0x3f" and j=3], simp, simp add: acpi_reg_write_intel_def Let_def
      w1c_16 w1c_32)+
  done

lemma ich2_gpsts_w1c:
  assumes "addr AND 0x7f \<in> {0x28, 0x29}"
  shows "regs (dev (acpi_reg_write_intel_ich2 sz addr val m)) =
           (regs (dev m))\<lparr>gpsts := gpsts (regs (dev m))
              AND NOT (push_bit (8 * unat (addr AND 1)) (ucast val) AND 0x09fb)\<rparr>"
  using assms
  apply (elim insertE emptyE)
  apply (frule lane_masked [where k="0x7f" and j=1], simp, simp add: acpi_reg_write_intel_ich2_def Let_def
      w1c_16 w1c_32)+
  done

lemma ich2_gpsts1_w1c:
  assumes "addr AND 0x7f \<in> {0x2c, 0x2d}"
  shows "regs (dev (acpi_reg_write_intel_ich2 sz addr val m)) =
           (regs (dev m))\<lparr>gpsts1 := gpsts1 (regs (dev m))
              AND NOT (push_bit (8 * unat (addr AND 1)) (ucast val) AND 0x09fb)\<rparr>"
  using assms
  apply (elim insertE emptyE)
  apply (frule lane_masked [where k="0x7f" and j=1], simp, simp add: acpi_reg_write_intel_ich2_def Let_def
      w1c_16 w1c_32)+
  done

lemma ich2_smi_sts_w1c:
  assumes "addr AND 0x7f \<in> {0x34, 0x35, 0x36, 0x37}"
  shows "regs (dev (acpi_reg_write_intel_ich2 sz addr val m)) =
           (regs (dev m))\<lparr>smi_sts := smi_sts (regs (dev m))
              AND NOT (push_bit (8 * unat (addr AND 3)) (ucast val) AND 0x0001ff7c)\<rparr>"
  using assms
  apply (elim insertE emptyE)
  apply (frule lane_masked [where k="0x7f" and j=3], simp, simp add: acpi_reg_write_intel_ich2_def Let_def
      w1c_16 w1c_32)+
  done

lemma ich2_devact_sts_w1c:
  assumes "addr AND 0x7f \<in> {0x44, 0x45}"
  shows "regs (dev (acpi_reg_write_intel_ich2 sz addr val m)) =
           (regs (dev m))\<lparr>devact_sts := devact_sts (regs (dev m))
              AND NOT (push_bit (8 * unat (addr AND 1)) (ucast val) AND 0x3fef)\<rparr>"
  using assms
  apply (elim insertE emptyE)
  apply (frule lane_masked [where k="0x7f" and j=1], simp, simp add: acpi_reg_write_intel_ich2_def Let_def
      w1c_16 w1c_32)+
  done

lemma via_gpsts_w1c:
  assumes "addr AND 0xff \<in> {0x20, 0x21}"
  shows "regs (dev (acpi_reg_write_via_common sz addr val m)) =
           (regs (dev m))\<lparr>gpsts := gpsts (regs (dev m))
              AND NOT (push_bit (8 * unat (addr AND 1)) (ucast val) AND 0x03ff)\<rparr>"
  using assms
  apply (elim insertE emptyE)
  apply (frule lane_masked [where k="0xff" and j=1], simp, simp add: acpi_reg_write_via_common_def Let_def
      w1c_16 w1c_32)+
  done

lemma via_glbsts_w1c:
  assumes "addr AND 0xff \<in> {0x28, 0x29}"
  shows "regs (dev (acpi_reg_write_via sz addr val m)) =
           (regs (dev m))\<lparr>glbsts := glbsts (regs (dev m))
              AND NOT (push_bit (8 * unat (addr AND 1)) (ucast val) AND 0x007f)\<rparr>"
  using assms
  apply (elim insertE emptyE)
  apply (frule lane_masked [where k="0xff" and j=1], simp, simp add: acpi_reg_write_via_def Let_def
      w1c_16 w1c_32)+
  done

lemma via_padsts_w1c:
  assumes "addr AND 0xff \<in> {0x30, 0x31, 0x32, 0x33}"
  shows "regs (dev (acpi_reg_write_via sz addr val m)) =
           (regs (dev m))\<lparr>padsts := padsts (regs (dev m))
              AND NOT (push_bit (8 * unat (addr AND 3)) (ucast val) AND 0x000000fd)\<rparr>"
  using assms
  apply (elim insertE emptyE)
  apply (frule lane_masked [where k="0xff" and j=3], simp, simp add: acpi_reg_write_via_def Let_def
      w1c_16 w1c_32)+
  done

lemma via_596b_glbsts_w1c:
  assumes "addr AND 0x7f \<in> {0x28, 0x29}"
  shows "regs (dev (acpi_reg_write_via_596b sz addr val m)) =
           (regs (dev m))\<lparr>glbsts := glbsts (regs (dev m))
              AND NOT (push_bit (8 * unat (addr AND 1)) (ucast val) AND 0xfdff)\<rparr>"
  using assms
  apply (elim insertE emptyE)
  apply (frule lane_masked [where k="0x7f" and j=1], simp, simp add: acpi_reg_write_via_596b_def Let_def
      w1c_16 w1c_32)+
  done

lemma via_596b_padsts_w1c:
  assumes "addr AND 0x7f \<in> {0x30, 0x31, 0x32, 0x33}"
  shows "regs (dev (acpi_reg_write_via_596b sz addr val m)) =
           (regs (dev m))\<lparr>padsts := padsts (regs (dev m))
              AND NOT (push_bit (8 * unat (addr AND 3)) (ucast val) AND 0x000007ff)\<rparr>"
  using assms
  apply (elim insertE emptyE)
  apply (frule lane_masked [where k="0x7f" and j=3], simp, simp add: acpi_reg_write_via_596b_def Let_def
      w1c_16 w1c_32)+
  done

lemma smc_gpscists_w1c:
  assumes "addr AND 0x07 \<in> {0x00, 0x01}"
  shows "regs (dev (acpi_aux_reg_write_smc sz addr val m)) =
           (regs (dev m))\<lparr>gpscists := gpscists (regs (dev m))
              AND NOT (push_bit (8 * unat (addr AND 1)) (ucast val) AND 0x000c)\<rparr>"
  using assms
  apply (elim insertE emptyE)
  apply (frule lane_masked [where k="0x07" and j=1], simp, simp add: acpi_aux_reg_write_smc_def Let_def
      w1c_16 w1c_32)+
  done

lemma smc_glbsts_w1c:
  assumes "addr AND 0x07 \<in> {0x04, 0x05}"
  shows "regs (dev (acpi_aux_reg_write_smc sz addr val m)) =
           (regs (dev m))\<lparr>glbsts := glbsts (regs (dev m))
              AND NOT (push_bit (8 * unat (addr AND 1)) (ucast val) AND 0x001f)\<rparr>"
  using assms
  apply (elim insertE emptyE)
  apply (frule lane_masked [where k="0x07" and j=1], simp, simp add: acpi_aux_reg_write_smc_def Let_def
      w1c_16 w1c_32)+
  done

lemma via_596b_extiotrapsts_w1c:
  assumes "addr AND 0x7f = 0x40"
  shows "regs (dev (acpi_reg_write_via_596b sz addr val m)) =
           (regs (dev m))\<lparr>extiotrapsts := extiotrapsts (regs (dev m)) AND NOT (val AND 0x13)\<rparr>"
  using assms by (simp add: acpi_reg_write_via_596b_def Let_def)

lemma pmsts_write_rtc_status:
  assumes "addr AND 0x3f \<in> {0x00, 0x01}"
  shows "acpi_rtc_status (acpi_reg_write_common_regs sz addr val m) =
           (if addr AND 0x3f = 0x01 \<and> val AND 0x04 \<noteq> 0 then 0 else acpi_rtc_status m)"
  using assms
  by (elim insertE emptyE; simp add: acpi_reg_write_common_regs_def Let_def update_irq_rtc)

text \<open>
  From the entry point. \<open>acpi_reg_write_common\<close> hands the write to the handler of
  the profile, and the handlers of all six profiles pass offsets 0 and 1 on to
  \<open>acpi_reg_write_common_regs\<close>; what they do afterwards leaves PMSTS alone. The two VIA
  handlers pass the offsets of \<open>gpsts\<close> on to \<open>acpi_reg_write_via_common\<close>.
\<close>

lemma low_masks:
  assumes "(addr::16 word) AND 0xff = c"
  shows "addr AND 0x7f = c AND 0x7f" "addr AND 0x3f = c AND 0x3f"
    "addr AND 0x0f = c AND 0x0f" "addr AND 1 = c AND 1"
proof -
  have "addr AND 0x7f = (addr AND 0xff) AND 0x7f" "addr AND 0x3f = (addr AND 0xff) AND 0x3f"
    "addr AND 0x0f = (addr AND 0xff) AND 0x0f" "addr AND 1 = (addr AND 0xff) AND 1"
    by (simp_all add: and.assoc)
  then show "addr AND 0x7f = c AND 0x7f" "addr AND 0x3f = c AND 0x3f"
    "addr AND 0x0f = c AND 0x0f" "addr AND 1 = c AND 1"
    by (simp_all only: assms)
qed

lemma pmsts_common_regs:
  "pmsts (regs (dev (acpi_reg_write_common_regs sz 0 val m))) =
     pmsts (regs (dev m)) AND NOT (ucast val AND 0x8d31)"
  "pmsts (regs (dev (acpi_reg_write_common_regs sz 1 val m))) =
     pmsts (regs (dev m)) AND NOT (push_bit 8 (ucast val) AND 0x8d31)"
  using pmsts_w1c [of 0 sz val m] pmsts_w1c [of 1 sz val m] by simp_all

lemma pmsts_write_dispatch:
  assumes "addr AND 0xff \<in> {0x00, 0x01}"
  shows "pmsts (regs (dev (acpi_reg_write_common sz addr val m))) =
           pmsts (regs (dev m))
             AND NOT (push_bit (8 * unat (addr AND 1)) (ucast val) AND 0x8d31)"
proof -
  note defs = acpi_reg_write_common_def acpi_reg_write_ali_def acpi_reg_write_via_def
    acpi_reg_write_via_common_def acpi_reg_write_via_596b_def acpi_reg_write_intel_def
    acpi_reg_write_intel_ich2_def acpi_reg_write_smc_def
  from assms consider "addr AND 0xff = 0" | "addr AND 0xff = 1"
    by auto
  then show ?thesis
  proof cases
    case 1
    show ?thesis
      using 1 low_masks [OF 1]
      by (cases "vendor (dev m)") (simp_all add: defs Let_def pmsts_common_regs update_irq_dev)
  next
    case 2
    show ?thesis
      using 2 low_masks [OF 2]
      by (cases "vendor (dev m)")
        (simp_all add: defs Let_def pmsts_common_regs update_irq_dev word_le_nat_alt)
  qed
qed

lemma write_common_dispatch:
  "vendor (dev m) = VEN_ALI \<Longrightarrow>
     acpi_reg_write_common sz addr val m = acpi_reg_write_ali sz addr val m"
  "vendor (dev m) = VEN_VIA \<Longrightarrow>
     acpi_reg_write_common sz addr val m = acpi_reg_write_via sz addr val m"
  "vendor (dev m) = VEN_VIA_596B \<Longrightarrow>
     acpi_reg_write_common sz addr val m = acpi_reg_write_via_596b sz addr val m"
  "vendor (dev m) = VEN_INTEL \<Longrightarrow>
     acpi_reg_write_common sz addr val m = acpi_reg_write_intel sz addr val m"
  "vendor (dev m) = VEN_INTEL_ICH2 \<Longrightarrow>
     acpi_reg_write_common sz addr val m = acpi_reg_write_intel_ich2 sz addr val m"
  "vendor (dev m) = VEN_SMC \<Longrightarrow>
     acpi_reg_write_common sz addr val m = acpi_reg_write_smc sz addr val m"
  "vendor (dev m) = VEN_SMC \<Longrightarrow>
     acpi_aux_reg_write_common sz addr val m = acpi_aux_reg_write_smc sz addr val m"
  by (simp_all add: acpi_reg_write_common_def acpi_aux_reg_write_common_def)

lemma via_gpsts_dispatch:
  assumes "addr AND 0xff \<in> {0x20, 0x21}"
  shows "regs (dev (acpi_reg_write_via sz addr val m)) =
           (regs (dev m))\<lparr>gpsts := gpsts (regs (dev m))
              AND NOT (push_bit (8 * unat (addr AND 1)) (ucast val) AND 0x03ff)\<rparr>"
    and "regs (dev (acpi_reg_write_via_596b sz addr val m)) =
           (regs (dev m))\<lparr>gpsts := gpsts (regs (dev m))
              AND NOT (push_bit (8 * unat (addr AND 1)) (ucast val) AND 0x03ff)\<rparr>"
proof -
  from assms consider "addr AND 0xff = 0x20" | "addr AND 0xff = 0x21"
    by auto
  then have "regs (dev (acpi_reg_write_via sz addr val m)) =
           (regs (dev m))\<lparr>gpsts := gpsts (regs (dev m))
              AND NOT (push_bit (8 * unat (addr AND 1)) (ucast val) AND 0x03ff)\<rparr>
     \<and> regs (dev (acpi_reg_write_via_596b sz addr val m)) =
           (regs (dev m))\<lparr>gpsts := gpsts (regs (dev m))
              AND NOT (push_bit (8 * unat (addr AND 1)) (ucast val) AND 0x03ff)\<rparr>"
  proof cases
    case 1
    show ?thesis
      using 1 low_masks [OF 1]
      by (simp add: acpi_reg_write_via_def acpi_reg_write_via_596b_def
          acpi_reg_write_via_common_def Let_def w1c_16 word_le_nat_alt)
  next
    case 2
    show ?thesis
      using 2 low_masks [OF 2]
      by (simp add: acpi_reg_write_via_def acpi_reg_write_via_596b_def
          acpi_reg_write_via_common_def Let_def w1c_16 word_le_nat_alt)
  qed
  then show "regs (dev (acpi_reg_write_via sz addr val m)) =
           (regs (dev m))\<lparr>gpsts := gpsts (regs (dev m))
              AND NOT (push_bit (8 * unat (addr AND 1)) (ucast val) AND 0x03ff)\<rparr>"
    and "regs (dev (acpi_reg_write_via_596b sz addr val m)) =
           (regs (dev m))\<lparr>gpsts := gpsts (regs (dev m))
              AND NOT (push_bit (8 * unat (addr AND 1)) (ucast val) AND 0x03ff)\<rparr>"
    by simp_all
qed

text \<open>The status bits of the example states.\<close>

lemma ex_states:
  "gpsts1 (regs (dev ali_gbl_rls)) = 0x0001"
  "glbsts (regs (dev intel_gbl_rls)) = 0x0001"
  "smi_sts (regs (dev ich2_slp_trapped)) = 0x0010"
  "glbsts (regs (dev via_smi_cmd)) = 0x0040"
  "gpscists (regs (dev smc_sci_pending)) = 0x000c"
  "pmsts (regs (dev (power_on VEN_INTEL 0))) = 0x8000"
  by code_simp+

section \<open>The claims\<close>

subsection \<open>C1: the overflow period\<close>

text \<open>
  C1, as amended. The ticks that \<open>acpi_get_overflow_period\<close> counts run from the
  current timer value to the next multiple of \<open>0x800000\<close> when the timer is 24-bit and
  of \<open>0x80000000\<close> when it is 32-bit: the next toggle of the counter's top bit, half the
  range the claim names. The period is the \<open>double\<close> the code computes from that
  count: the count divided by the timer frequency, rounded, times \<open>1000000\<close>, rounded.
  It is within \<open>2 powi (- 51)\<close>, relatively, of the count divided by the timer
  frequency, in microseconds.
\<close>

theorem overflow_period_half_range:
  "unat (time_to_overflow m) =
     (if timer32 (regs (dev m)) \<noteq> 0
      then 0x80000000 - unat (acpi_timer_get m) mod 0x80000000
      else 0x800000 - unat (acpi_timer_get m) mod 0x800000)
   \<and> acpi_get_overflow_period m =
       double_round (double_round (of_nat (unat (time_to_overflow m)) / 3579545) * 1000000)
   \<and> \<bar>acpi_get_overflow_period m - of_nat (unat (time_to_overflow m)) / 3579545 * 1000000\<bar>
       \<le> of_nat (unat (time_to_overflow m)) / 3579545 * 1000000 / 2 ^ 51"
proof (intro conjI)
  let ?t = "of_int (uint (time_to_overflow m)) :: rat"
  have n: "(of_nat (unat (time_to_overflow m)) :: rat) = ?t"
    by simp
  show "unat (time_to_overflow m) =
     (if timer32 (regs (dev m)) \<noteq> 0
      then 0x80000000 - unat (acpi_timer_get m) mod 0x80000000
      else 0x800000 - unat (acpi_timer_get m) mod 0x800000)"
    using unat_timer_get_mod [of m] by (simp add: unat_time_to_overflow split: if_splits)
  show "acpi_get_overflow_period m =
       double_round (double_round (of_nat (unat (time_to_overflow m)) / 3579545) * 1000000)"
    unfolding n by (rule overflow_period_unfold)
  have q: "0 < ?t / 3579545"
    using time_to_overflow_rat(1) [of m] by simp
  show "\<bar>acpi_get_overflow_period m - of_nat (unat (time_to_overflow m)) / 3579545 * 1000000\<bar>
       \<le> of_nat (unat (time_to_overflow m)) / 3579545 * 1000000 / 2 ^ 51"
    unfolding n overflow_period_unfold by (rule double_div_mul_error [OF q])
qed

text \<open>
  On a 24-bit timer at clock \<open>0x123456\<close> the count is \<open>0x6dcbaa\<close> and the period is
  the double \<open>0x1.eac4d0124d812p+20\<close>, which is not the quotient itself.
\<close>

theorem overflow_period_half_range_witness:
  "unat (time_to_overflow intel_tmrof_en) = 0x6dcbaa
   \<and> acpi_get_overflow_period intel_tmrof_en = 0x1eac4d0124d812 / 2 ^ 32
   \<and> acpi_get_overflow_period intel_tmrof_en \<noteq> 0x6dcbaa / 3579545 * 1000000"
proof -
  have t: "timer32 (regs (dev intel_tmrof_en)) = 0"
    and g: "acpi_timer_get intel_tmrof_en = 0x123456"
    by code_simp+
  have n: "unat (time_to_overflow intel_tmrof_en) = 0x6dcbaa"
    using overflow_period_half_range [of intel_tmrof_en, THEN conjunct1] by (simp add: t g)
  have v: "double_round (double_round (7195562 / 3579545) * 1000000) = 4316848016485385 / 2147483648"
    by code_simp
  have "acpi_get_overflow_period intel_tmrof_en =
          double_round (double_round (of_nat (unat (time_to_overflow intel_tmrof_en)) / 3579545)
            * 1000000)"
    using overflow_period_half_range [of intel_tmrof_en, THEN conjunct2] by (rule conjunct1)
  then have p: "acpi_get_overflow_period intel_tmrof_en = 4316848016485385 / 2147483648"
    by (simp add: n v)
  show ?thesis
    by (simp add: n p)
qed

text \<open>
  The claim as stated fails on a 24-bit timer at clock 0: the claim counts
  \<open>0x1000000\<close> ticks to the overflow, the code \<open>0x800000\<close>.
\<close>

theorem overflow_period_counterexample:
  "timer32 (regs (dev (power_on VEN_INTEL 0))) = 0
   \<and> spec_time_to_overflow (power_on VEN_INTEL 0) = 0x1000000
   \<and> unat (time_to_overflow (power_on VEN_INTEL 0)) = 0x800000
   \<and> unat (time_to_overflow (power_on VEN_INTEL 0)) \<noteq> spec_time_to_overflow (power_on VEN_INTEL 0)"
proof -
  have t: "timer32 (regs (dev (power_on VEN_INTEL 0))) = 0"
    and g: "acpi_timer_get (power_on VEN_INTEL 0) = 0"
    and c: "clock (power_on VEN_INTEL 0) = 0"
    by code_simp+
  show ?thesis
    by (simp add: spec_time_to_overflow_def unat_time_to_overflow t g c)
qed

subsection \<open>C2: enable registers\<close>

text \<open>
  C2. What the code does on a write to GPE1_EN of the ALi and ICH2 profiles: the merge
  reads \<open>gpen\<close>, the GPE0 enable register, and stores the result in \<open>gpen1\<close>. The
  claim (the merge reads the register being written) fails there.
\<close>

theorem gpe1_enable_reads_gpe0:
  "(addr AND 0x3f = 0x1e \<or> addr AND 0x3f = 0x1f \<longrightarrow>
      regs (dev (acpi_reg_write_ali sz addr val m)) =
        (regs (dev m))\<lparr>gpen1 :=
           merge (gpen (regs (dev m))) (if addr AND 0x3f = 0x1e then 0 else 8) val 0x0c01\<rparr>)
   \<and> (addr AND 0x7f = 0x2e \<or> addr AND 0x7f = 0x2f \<longrightarrow>
      regs (dev (acpi_reg_write_intel_ich2 sz addr val m)) =
        (regs (dev m))\<lparr>gpen1 :=
           merge (gpen (regs (dev m))) (if addr AND 0x7f = 0x2e then 0 else 8) val 0x097d\<rparr>)"
proof (intro conjI impI)
  assume "addr AND 0x3f = 0x1e \<or> addr AND 0x3f = 0x1f"
  then show "regs (dev (acpi_reg_write_ali sz addr val m)) =
        (regs (dev m))\<lparr>gpen1 :=
           merge (gpen (regs (dev m))) (if addr AND 0x3f = 0x1e then 0 else 8) val 0x0c01\<rparr>"
    by (elim disjE) (simp_all add: acpi_reg_write_ali_def Let_def)
next
  assume "addr AND 0x7f = 0x2e \<or> addr AND 0x7f = 0x2f"
  then show "regs (dev (acpi_reg_write_intel_ich2 sz addr val m)) =
        (regs (dev m))\<lparr>gpen1 :=
           merge (gpen (regs (dev m))) (if addr AND 0x7f = 0x2e then 0 else 8) val 0x097d\<rparr>"
    by (elim disjE) (simp_all add: acpi_reg_write_intel_ich2_def Let_def)
qed

text \<open>
  On an ALi device with GPE0_EN = \<open>0x0400\<close> and GPE1_EN = 0, writing 0 to the low byte
  of GPE1_EN leaves GPE1_EN at \<open>0x0400\<close>; merging the byte into GPE1_EN itself gives 0.
  The same on ICH2 with GPE0_EN = \<open>0x0100\<close>.
\<close>

theorem gpe1_enable_reads_gpe0_witness:
  "gpen1 (regs (dev ali_gpe0_enabled)) = 0
   \<and> merge (gpen1 (regs (dev ali_gpe0_enabled))) 0 0x00 0x0c01 = (0 :: 16 word)
   \<and> gpen1 (regs (dev (acpi_reg_write_ali 1 0x1e 0x00 ali_gpe0_enabled))) = 0x0400
   \<and> gpen1 (regs (dev ich2_gpe0_enabled)) = 0
   \<and> merge (gpen1 (regs (dev ich2_gpe0_enabled))) 0 0x00 0x097d = (0 :: 16 word)
   \<and> gpen1 (regs (dev (acpi_reg_write_intel_ich2 1 0x2e 0x00 ich2_gpe0_enabled))) = 0x0100"
proof -
  have a: "gpen (regs (dev ali_gpe0_enabled)) = 0x0400"
    and a1: "gpen1 (regs (dev ali_gpe0_enabled)) = 0"
    and i: "gpen (regs (dev ich2_gpe0_enabled)) = 0x0100"
    and i1: "gpen1 (regs (dev ich2_gpe0_enabled)) = 0"
    and ma: "merge (0x0400 :: 16 word) 0 0x00 0x0c01 = (0x0400 :: 16 word)"
    and mi: "merge (0x0100 :: 16 word) 0 0x00 0x097d = (0x0100 :: 16 word)"
    and m0: "merge (0 :: 16 word) 0 0x00 0x0c01 = (0 :: 16 word)"
      "merge (0 :: 16 word) 0 0x00 0x097d = (0 :: 16 word)"
    by code_simp+
  have "gpen1 (regs (dev (acpi_reg_write_ali 1 0x1e 0x00 ali_gpe0_enabled))) = 0x0400"
    using gpe1_enable_reads_gpe0 [where addr="0x1e" and sz=1 and val="0x00" and m=ali_gpe0_enabled, THEN conjunct1]
    by (simp add: a ma)
  moreover
  have "gpen1 (regs (dev (acpi_reg_write_intel_ich2 1 0x2e 0x00 ich2_gpe0_enabled))) = 0x0100"
    using gpe1_enable_reads_gpe0 [where addr="0x2e" and sz=1 and val="0x00" and m=ich2_gpe0_enabled, THEN conjunct2]
    by (simp add: i mi)
  ultimately show ?thesis
    by (simp add: a1 i1 m0)
qed

subsection \<open>C3: status registers are write-one-to-clear\<close>

text \<open>
  C3. A byte written to a status register leaves the register at
  \<open>V AND NOT (B AND K)\<close>, \<open>V\<close> the value before, \<open>B\<close> the byte in its lane and
  \<open>K\<close> the mask of the register, and changes no other register. This holds of every
  status register of acpi.c: PMSTS of the common block (mask \<open>0x8d31\<close>; the write also
  clears \<open>acpi_rtc_status\<close> when it has bit 2 set and goes to the high byte), the
  general-purpose, global, device, SMI and pad status registers of the ALi, Intel, ICH2 and
  VIA profiles, the extended I/O trap status of VIA 596B and the two status registers of the
  SMC auxiliary window. Of such a value the bits outside the mask are those of \<open>V\<close>, no
  bit is set that was clear in \<open>V\<close>, and the bits written as 1 under the mask are clear.
\<close>

theorem status_write_one_to_clear:
  "(addr AND 0x3f \<in> {0x00, 0x01} \<longrightarrow>
      regs (dev (acpi_reg_write_common_regs sz addr val m)) =
        (regs (dev m))\<lparr>pmsts := pmsts (regs (dev m))
           AND NOT (push_bit (8 * unat (addr AND 1)) (ucast val) AND 0x8d31)\<rparr>
      \<and> acpi_rtc_status (acpi_reg_write_common_regs sz addr val m) =
          (if addr AND 0x3f = 0x01 \<and> val AND 0x04 \<noteq> 0 then 0 else acpi_rtc_status m))
   \<and> (addr AND 0x3f \<in> {0x18, 0x19} \<longrightarrow>
      regs (dev (acpi_reg_write_ali sz addr val m)) =
        (regs (dev m))\<lparr>gpsts := gpsts (regs (dev m))
           AND NOT (push_bit (8 * unat (addr AND 1)) (ucast val) AND 0x0d07)\<rparr>)
   \<and> (addr AND 0x3f \<in> {0x1c, 0x1d} \<longrightarrow>
      regs (dev (acpi_reg_write_ali sz addr val m)) =
        (regs (dev m))\<lparr>gpsts1 := gpsts1 (regs (dev m))
           AND NOT (push_bit (8 * unat (addr AND 1)) (ucast val) AND 0x0c01)\<rparr>)
   \<and> (addr AND 0x3f \<in> {0x0c, 0x0d} \<longrightarrow>
      regs (dev (acpi_reg_write_intel sz addr val m)) =
        (regs (dev m))\<lparr>gpsts := gpsts (regs (dev m))
           AND NOT (push_bit (8 * unat (addr AND 1)) (ucast val) AND 0x0f81)\<rparr>)
   \<and> (addr AND 0x3f \<in> {0x18, 0x19} \<longrightarrow>
      regs (dev (acpi_reg_write_intel sz addr val m)) =
        (regs (dev m))\<lparr>glbsts := glbsts (regs (dev m))
           AND NOT (push_bit (8 * unat (addr AND 1)) (ucast val) AND 0x0d27)\<rparr>)
   \<and> (addr AND 0x3f \<in> {0x1c, 0x1d, 0x1e, 0x1f} \<longrightarrow>
      regs (dev (acpi_reg_write_intel sz addr val m)) =
        (regs (dev m))\<lparr>devsts := devsts (regs (dev m))
           AND NOT (push_bit (8 * unat (addr AND 3)) (ucast val) AND 0x3fff0fff)\<rparr>)
   \<and> (addr AND 0x7f \<in> {0x28, 0x29} \<longrightarrow>
      regs (dev (acpi_reg_write_intel_ich2 sz addr val m)) =
        (regs (dev m))\<lparr>gpsts := gpsts (regs (dev m))
           AND NOT (push_bit (8 * unat (addr AND 1)) (ucast val) AND 0x09fb)\<rparr>)
   \<and> (addr AND 0x7f \<in> {0x2c, 0x2d} \<longrightarrow>
      regs (dev (acpi_reg_write_intel_ich2 sz addr val m)) =
        (regs (dev m))\<lparr>gpsts1 := gpsts1 (regs (dev m))
           AND NOT (push_bit (8 * unat (addr AND 1)) (ucast val) AND 0x09fb)\<rparr>)
   \<and> (addr AND 0x7f \<in> {0x34, 0x35, 0x36, 0x37} \<longrightarrow>
      regs (dev (acpi_reg_write_intel_ich2 sz addr val m)) =
        (regs (dev m))\<lparr>smi_sts := smi_sts (regs (dev m))
           AND NOT (push_bit (8 * unat (addr AND 3)) (ucast val) AND 0x0001ff7c)\<rparr>)
   \<and> (addr AND 0x7f \<in> {0x44, 0x45} \<longrightarrow>
      regs (dev (acpi_reg_write_intel_ich2 sz addr val m)) =
        (regs (dev m))\<lparr>devact_sts := devact_sts (regs (dev m))
           AND NOT (push_bit (8 * unat (addr AND 1)) (ucast val) AND 0x3fef)\<rparr>)
   \<and> (addr AND 0xff \<in> {0x20, 0x21} \<longrightarrow>
      regs (dev (acpi_reg_write_via_common sz addr val m)) =
        (regs (dev m))\<lparr>gpsts := gpsts (regs (dev m))
           AND NOT (push_bit (8 * unat (addr AND 1)) (ucast val) AND 0x03ff)\<rparr>)
   \<and> (addr AND 0xff \<in> {0x28, 0x29} \<longrightarrow>
      regs (dev (acpi_reg_write_via sz addr val m)) =
        (regs (dev m))\<lparr>glbsts := glbsts (regs (dev m))
           AND NOT (push_bit (8 * unat (addr AND 1)) (ucast val) AND 0x007f)\<rparr>)
   \<and> (addr AND 0xff \<in> {0x30, 0x31, 0x32, 0x33} \<longrightarrow>
      regs (dev (acpi_reg_write_via sz addr val m)) =
        (regs (dev m))\<lparr>padsts := padsts (regs (dev m))
           AND NOT (push_bit (8 * unat (addr AND 3)) (ucast val) AND 0x000000fd)\<rparr>)
   \<and> (addr AND 0x7f \<in> {0x28, 0x29} \<longrightarrow>
      regs (dev (acpi_reg_write_via_596b sz addr val m)) =
        (regs (dev m))\<lparr>glbsts := glbsts (regs (dev m))
           AND NOT (push_bit (8 * unat (addr AND 1)) (ucast val) AND 0xfdff)\<rparr>)
   \<and> (addr AND 0x7f \<in> {0x30, 0x31, 0x32, 0x33} \<longrightarrow>
      regs (dev (acpi_reg_write_via_596b sz addr val m)) =
        (regs (dev m))\<lparr>padsts := padsts (regs (dev m))
           AND NOT (push_bit (8 * unat (addr AND 3)) (ucast val) AND 0x000007ff)\<rparr>)
   \<and> (addr AND 0x7f = 0x40 \<longrightarrow>
      regs (dev (acpi_reg_write_via_596b sz addr val m)) =
        (regs (dev m))\<lparr>extiotrapsts := extiotrapsts (regs (dev m)) AND NOT (val AND 0x13)\<rparr>)
   \<and> (addr AND 0x07 \<in> {0x00, 0x01} \<longrightarrow>
      regs (dev (acpi_aux_reg_write_smc sz addr val m)) =
        (regs (dev m))\<lparr>gpscists := gpscists (regs (dev m))
           AND NOT (push_bit (8 * unat (addr AND 1)) (ucast val) AND 0x000c)\<rparr>)
   \<and> (addr AND 0x07 \<in> {0x04, 0x05} \<longrightarrow>
      regs (dev (acpi_aux_reg_write_smc sz addr val m)) =
        (regs (dev m))\<lparr>glbsts := glbsts (regs (dev m))
           AND NOT (push_bit (8 * unat (addr AND 1)) (ucast val) AND 0x001f)\<rparr>)
   \<and> ((v::'a::len word) AND NOT (b AND k)) AND NOT k = v AND NOT k
   \<and> (v AND NOT (b AND k)) AND NOT v = 0
   \<and> (v AND NOT (b AND k)) AND (b AND k) = 0"
  by (intro conjI impI,
      erule pmsts_w1c,
      erule pmsts_write_rtc_status,
      erule ali_gpsts_w1c,
      erule ali_gpsts1_w1c,
      erule intel_gpsts_w1c,
      erule intel_glbsts_w1c,
      erule intel_devsts_w1c,
      erule ich2_gpsts_w1c,
      erule ich2_gpsts1_w1c,
      erule ich2_smi_sts_w1c,
      erule ich2_devact_sts_w1c,
      erule via_gpsts_w1c,
      erule via_glbsts_w1c,
      erule via_padsts_w1c,
      erule via_596b_glbsts_w1c,
      erule via_596b_padsts_w1c,
      erule via_596b_extiotrapsts_w1c,
      erule smc_gpscists_w1c,
      erule smc_glbsts_w1c,
      rule w1c_frame,
      rule w1c_no_set,
      rule w1c_clears)

text \<open>
  Writing a set status bit as 1 clears it: the resume bit of PMSTS after power-on, the
  status bits of the example states; the same write leaves bit 3 of \<open>gpscists\<close>, written
  as 0, set. The write of \<open>0x04\<close> to the high byte of PMSTS clears \<open>acpi_rtc_status\<close>.
\<close>

theorem status_write_one_to_clear_witness:
  "pmsts (regs (dev (power_on VEN_INTEL 0))) = 0x8000
   \<and> pmsts (regs (dev (acpi_reg_write_common_regs 1 0x01 0x80 (power_on VEN_INTEL 0)))) = 0
   \<and> acpi_rtc_status (acpi_reg_write_common_regs 1 0x01 0x04
         ((power_on VEN_INTEL 0)\<lparr>acpi_rtc_status := 1\<rparr>)) = 0
   \<and> gpsts1 (regs (dev ali_gbl_rls)) = 0x0001
   \<and> gpsts1 (regs (dev (acpi_reg_write_ali 1 0x1c 0x01 ali_gbl_rls))) = 0
   \<and> glbsts (regs (dev intel_gbl_rls)) = 0x0001
   \<and> glbsts (regs (dev (acpi_reg_write_intel 1 0x18 0x01 intel_gbl_rls))) = 0
   \<and> smi_sts (regs (dev ich2_slp_trapped)) = 0x0010
   \<and> smi_sts (regs (dev (acpi_reg_write_intel_ich2 1 0x34 0x10 ich2_slp_trapped))) = 0
   \<and> glbsts (regs (dev via_smi_cmd)) = 0x0040
   \<and> glbsts (regs (dev (acpi_reg_write_via 1 0x28 0x40 via_smi_cmd))) = 0
   \<and> gpscists (regs (dev smc_sci_pending)) = 0x000c
   \<and> gpscists (regs (dev (acpi_aux_reg_write_smc 1 0x00 0x04 smc_sci_pending))) = 0x0008"
proof -
  have "pmsts (regs (dev (acpi_reg_write_common_regs 1 0x01 0x80 (power_on VEN_INTEL 0)))) = 0"
    using status_write_one_to_clear
      [where addr="0x01" and sz=1 and val="0x80"
        and m="power_on VEN_INTEL 0",
        THEN conjunct1]
    by (simp add: ex_states)
  moreover
  have "acpi_rtc_status (acpi_reg_write_common_regs 1 0x01 0x04
         ((power_on VEN_INTEL 0)\<lparr>acpi_rtc_status := 1\<rparr>)) = 0"
    using status_write_one_to_clear
      [where addr="0x01" and sz=1 and val="0x04"
        and m="(power_on VEN_INTEL 0)\<lparr>acpi_rtc_status := 1\<rparr>",
        THEN conjunct1]
    by simp
  moreover
  have "gpsts1 (regs (dev (acpi_reg_write_ali 1 0x1c 0x01 ali_gbl_rls))) = 0"
    using status_write_one_to_clear
      [where addr="0x1c" and sz=1 and val="0x01"
        and m=ali_gbl_rls,
        THEN conjunct2, THEN conjunct2, THEN conjunct1]
    by (simp add: ex_states)
  moreover
  have "glbsts (regs (dev (acpi_reg_write_intel 1 0x18 0x01 intel_gbl_rls))) = 0"
    using status_write_one_to_clear
      [where addr="0x18" and sz=1 and val="0x01"
        and m=intel_gbl_rls,
        THEN conjunct2, THEN conjunct2, THEN conjunct2, THEN conjunct2, THEN conjunct1]
    by (simp add: ex_states)
  moreover
  have "smi_sts (regs (dev (acpi_reg_write_intel_ich2 1 0x34 0x10 ich2_slp_trapped))) = 0"
    using status_write_one_to_clear
      [where addr="0x34" and sz=1 and val="0x10"
        and m=ich2_slp_trapped,
        THEN conjunct2, THEN conjunct2, THEN conjunct2, THEN conjunct2, THEN conjunct2,
        THEN conjunct2, THEN conjunct2, THEN conjunct2, THEN conjunct1]
    by (simp add: ex_states)
  moreover
  have "glbsts (regs (dev (acpi_reg_write_via 1 0x28 0x40 via_smi_cmd))) = 0"
    using status_write_one_to_clear
      [where addr="0x28" and sz=1 and val="0x40"
        and m=via_smi_cmd,
        THEN conjunct2, THEN conjunct2, THEN conjunct2, THEN conjunct2, THEN conjunct2,
        THEN conjunct2, THEN conjunct2, THEN conjunct2, THEN conjunct2, THEN conjunct2,
        THEN conjunct2, THEN conjunct1]
    by (simp add: ex_states)
  moreover
  have "gpscists (regs (dev (acpi_aux_reg_write_smc 1 0x00 0x04 smc_sci_pending))) = 0x0008"
    using status_write_one_to_clear
      [where addr="0x00" and sz=1 and val="0x04"
        and m=smc_sci_pending,
        THEN conjunct2, THEN conjunct2, THEN conjunct2, THEN conjunct2, THEN conjunct2,
        THEN conjunct2, THEN conjunct2, THEN conjunct2, THEN conjunct2, THEN conjunct2,
        THEN conjunct2, THEN conjunct2, THEN conjunct2, THEN conjunct2, THEN conjunct2,
        THEN conjunct2, THEN conjunct1]
    by (simp add: ex_states)
  ultimately show ?thesis
    by (simp add: ex_states)
qed

subsection \<open>C4: update_irq re-arms the overflow timer\<close>

text \<open>
  C4. \<open>acpi_update_irq\<close> changes nothing in the device and makes two calls: one to set
  or clear the IRQ line, then, last, \<open>timer_on_auto\<close> on the overflow timer with the
  overflow period when the timer-overflow enable bit is set in PMEN and the timer-overflow
  status bit is clear in PMSTS, and \<open>timer_stop\<close> on it otherwise.
\<close>

theorem update_irq_rearms_timer:
  "dev (acpi_update_irq m) = dev m \<and>
   (\<exists>c \<in> {Pci_set_irq (slot (dev m)) (irq_pin (dev m)),
           Pci_clear_irq (slot (dev m)) (irq_pin (dev m)),
           Pci_set_mirq 5 (mirq_is_level (dev m)),
           Pci_clear_mirq 5 (mirq_is_level (dev m)),
           Pci_set_mirq (0xf0 OR irq_line (dev m)) 1,
           Pci_clear_mirq (0xf0 OR irq_line (dev m)) 1}.
      calls (acpi_update_irq m) =
        calls m @ [c,
          if ucast (pmen (regs (dev m))) AND TMROF_EN \<noteq> 0
             \<and> ucast (pmsts (regs (dev m))) AND TMROF_STS = 0
          then Timer_on_auto Timer (acpi_get_overflow_period m)
          else Timer_stop Timer])"
  by (simp add: acpi_update_irq_def acpi_timer_update_def Let_def
      acpi_get_overflow_period_def time_to_overflow_def acpi_clock_get_def)

text \<open>
  With the overflow interrupt enabled, \<open>acpi_update_irq\<close> ends with \<open>timer_on_auto\<close>
  while no overflow is pending and with \<open>timer_stop\<close> once the overflow status is set.
\<close>

theorem update_irq_rearms_timer_witness:
  "last (calls (acpi_update_irq intel_tmrof_en)) =
     Timer_on_auto Timer (acpi_get_overflow_period intel_tmrof_en)
   \<and> last (calls (acpi_update_irq intel_tmrof_pending)) = Timer_stop Timer"
proof -
  have e: "ucast (pmen (regs (dev intel_tmrof_en))) AND TMROF_EN \<noteq> 0
           \<and> ucast (pmsts (regs (dev intel_tmrof_en))) AND TMROF_STS = 0"
    and p: "\<not> (ucast (pmen (regs (dev intel_tmrof_pending))) AND TMROF_EN \<noteq> 0
              \<and> ucast (pmsts (regs (dev intel_tmrof_pending))) AND TMROF_STS = 0)"
    by code_simp+
  from update_irq_rearms_timer [of intel_tmrof_en, THEN conjunct2]
  obtain c where "calls (acpi_update_irq intel_tmrof_en) =
      calls intel_tmrof_en @ [c,
          if ucast (pmen (regs (dev intel_tmrof_en))) AND TMROF_EN \<noteq> 0
             \<and> ucast (pmsts (regs (dev intel_tmrof_en))) AND TMROF_STS = 0
          then Timer_on_auto Timer (acpi_get_overflow_period intel_tmrof_en)
          else Timer_stop Timer]" ..
  then have 1: "last (calls (acpi_update_irq intel_tmrof_en)) =
          Timer_on_auto Timer (acpi_get_overflow_period intel_tmrof_en)"
    by (simp only: e simp_thms if_True if_False last_appendR last.simps list.simps)
  from update_irq_rearms_timer [of intel_tmrof_pending, THEN conjunct2]
  obtain c' where "calls (acpi_update_irq intel_tmrof_pending) =
      calls intel_tmrof_pending @ [c',
          if ucast (pmen (regs (dev intel_tmrof_pending))) AND TMROF_EN \<noteq> 0
             \<and> ucast (pmsts (regs (dev intel_tmrof_pending))) AND TMROF_STS = 0
          then Timer_on_auto Timer (acpi_get_overflow_period intel_tmrof_pending)
          else Timer_stop Timer]" ..
  then have 2: "last (calls (acpi_update_irq intel_tmrof_pending)) = Timer_stop Timer"
    by (simp only: p simp_thms if_True if_False last_appendR last.simps list.simps)
  from 1 2 show ?thesis ..
qed

subsection \<open>C5: the suspend sequence\<close>

text \<open>
  C5, as amended. A write to offset 5 of the common block with the sleep-enable bit
  (bit 5) set, on a device that is not an ICH2 with SLP_SMI_EN (bit 4 of SMI_EN) set and
  whose sleep type has the suspend flag and not the power-off flag, makes exactly these
  calls, in this order: the NVRAM write if SUS_NVR is flagged; the reset of all PCI devices
  if SUS_RESET_PCI; \<open>cpu_alt_reset = 0\<close> if SUS_RESET_CPU; the PCI bus reset, the keyboard
  controller reset, \<open>mem_a20_alt = 0\<close> and the A20 recalculation if SUS_RESET_PCI; the
  cache flush if SUS_RESET_CPU or SUS_RESET_CACHE; the CPU reset if SUS_RESET_CPU; then
  \<open>plat_pause(1)\<close> and the resume timer set to \<open>50 * TIMER_USEC\<close>.
\<close>

theorem suspend_sequence_order:
  assumes a: "addr AND 0x3f = 0x05" and v: "val AND 0x20 \<noteq> 0"
    and trap: "\<not> (vendor (dev m) = VEN_INTEL_ICH2 \<and> smi_en (regs (dev m)) AND 0x10 \<noteq> 0)"
    and st: "sus_typ = suspend_types (dev m) ! unat (drop_bit 2 val AND 7)"
    and off: "sus_typ AND SUS_POWER_OFF = 0" and sus: "sus_typ AND SUS_SUSPEND \<noteq> 0"
  shows "calls (acpi_reg_write_common_regs sz addr val m) = calls m @
      (if sus_typ AND SUS_NVR \<noteq> 0 then [Nvr_reg_write 0x000f 0xff] else []) @
      (if sus_typ AND SUS_RESET_PCI \<noteq> 0 then [Device_reset_all_pci] else []) @
      (if sus_typ AND SUS_RESET_CPU \<noteq> 0 then [Cpu_alt_reset_assign 0] else []) @
      (if sus_typ AND SUS_RESET_PCI \<noteq> 0
       then [Pci_reset, Keyboard_at_reset, Mem_a20_alt_assign 0, Mem_a20_recalc] else []) @
      (if sus_typ AND (SUS_RESET_CPU OR SUS_RESET_CACHE) \<noteq> 0 then [Flushmmucache] else []) @
      (if sus_typ AND SUS_RESET_CPU \<noteq> 0 then [Resetx86] else []) @
      [Plat_pause 1, Timer_set_delay_u64 Resume_timer (50 * TIMER_USEC m)]"
proof -
  from trap have t: "vendor (dev m) \<noteq> VEN_INTEL_ICH2 \<or> smi_en (regs (dev m)) AND 0x10 = 0"
    by simp
  show ?thesis
    using a v t off sus unfolding st
    by (cases "vendor (dev m) = VEN_INTEL_ICH2";
        cases "suspend_types (dev m) ! unat (drop_bit 2 val AND 7) AND SUS_NVR = 0";
        cases "suspend_types (dev m) ! unat (drop_bit 2 val AND 7) AND SUS_RESET_PCI = 0";
        cases "suspend_types (dev m) ! unat (drop_bit 2 val AND 7) AND SUS_RESET_CPU = 0";
        cases "suspend_types (dev m) ! unat (drop_bit 2 val AND 7)
                 AND (SUS_RESET_CPU OR SUS_RESET_CACHE) = 0";
        simp add: acpi_reg_write_common_regs_def Let_def)
qed

text \<open>
  On an ALi device, sleep type 2 is suspend with the NVRAM marker, the PCI reset and the
  CPU reset: the write of \<open>0x28\<close> makes all ten calls.
\<close>

theorem suspend_sequence_order_witness:
  "calls (acpi_reg_write_common_regs 1 0x05 0x28 (power_on VEN_ALI 0)) =
     calls (power_on VEN_ALI 0) @
     [Nvr_reg_write 0x000f 0xff, Device_reset_all_pci, Cpu_alt_reset_assign 0, Pci_reset,
      Keyboard_at_reset, Mem_a20_alt_assign 0, Mem_a20_recalc, Flushmmucache, Resetx86,
      Plat_pause 1, Timer_set_delay_u64 Resume_timer (50 * 0x4200000000)]"
proof -
  have h: "(0x05 :: 16 word) AND 0x3f = 0x05" "(0x28 :: 8 word) AND 0x20 \<noteq> 0"
    "\<not> (vendor (dev (power_on VEN_ALI 0)) = VEN_INTEL_ICH2
         \<and> smi_en (regs (dev (power_on VEN_ALI 0))) AND 0x10 \<noteq> 0)"
    "(0x2e :: 32 word) = suspend_types (dev (power_on VEN_ALI 0)) ! unat (drop_bit 2 (0x28 :: 8 word) AND 7)"
    "(0x2e :: 32 word) AND SUS_POWER_OFF = 0" "(0x2e :: 32 word) AND SUS_SUSPEND \<noteq> 0"
    and f: "(0x2e :: 32 word) AND SUS_NVR \<noteq> 0" "(0x2e :: 32 word) AND SUS_RESET_PCI \<noteq> 0"
    "(0x2e :: 32 word) AND SUS_RESET_CPU \<noteq> 0"
    "(0x2e :: 32 word) AND (SUS_RESET_CPU OR SUS_RESET_CACHE) \<noteq> 0"
    and u: "TIMER_USEC (power_on VEN_ALI 0) = 0x4200000000"
    by code_simp+
  show ?thesis
    using suspend_sequence_order [OF h, of 1] f u by simp
qed

text \<open>
  The claim as stated fails on an ICH2 device with SLP_SMI_EN set: sleep type 1 is a
  suspend type there (suspend and CPU reset), and the write of \<open>0x24\<close> makes no call
  at all, where the claim has the alternate-reset-mode change, the cache flush, the CPU
  reset, the pause and the resume timer.
\<close>

theorem suspend_sequence_counterexample:
  "suspend_types (dev ich2_slp_smi_en) ! unat (drop_bit 2 (0x24 :: 8 word) AND 7) AND SUS_SUSPEND \<noteq> 0
   \<and> suspend_types (dev ich2_slp_smi_en) ! unat (drop_bit 2 (0x24 :: 8 word) AND 7)
         AND SUS_POWER_OFF = 0
   \<and> calls (acpi_reg_write_common_regs 1 0x05 0x24 ich2_slp_smi_en) = calls ich2_slp_smi_en
   \<and> calls (acpi_reg_write_common_regs 1 0x05 0x24 ich2_slp_smi_en) \<noteq>
       calls ich2_slp_smi_en @
       [Cpu_alt_reset_assign 0, Flushmmucache, Resetx86, Plat_pause 1,
        Timer_set_delay_u64 Resume_timer (50 * TIMER_USEC ich2_slp_smi_en)]"
  by code_simp

subsection \<open>C6: power-off\<close>

text \<open>
  C6, as amended. A write to offset 5 of the common block with the sleep-enable bit set,
  on a device that is not an ICH2 with SLP_SMI_EN set and whose sleep type has the
  power-off flag, calls \<open>plat_power_off\<close> once and returns: no other call is made and
  nothing in the device, the control register included, is changed.
\<close>

theorem power_off_is_terminal:
  assumes a: "addr AND 0x3f = 0x05" and v: "val AND 0x20 \<noteq> 0"
    and trap: "\<not> (vendor (dev m) = VEN_INTEL_ICH2 \<and> smi_en (regs (dev m)) AND 0x10 \<noteq> 0)"
    and off: "suspend_types (dev m) ! unat (drop_bit 2 val AND 7) AND SUS_POWER_OFF \<noteq> 0"
  shows "acpi_reg_write_common_regs sz addr val m = m\<lparr>calls := calls m @ [Plat_power_off]\<rparr>"
  using a v trap off
  by (cases "vendor (dev m) = VEN_INTEL_ICH2";
      simp add: acpi_reg_write_common_regs_def Let_def do_call_def)

text \<open>On an ALi device sleep type 0 is power-off: the write of \<open>0x20\<close>.\<close>

theorem power_off_is_terminal_witness:
  "acpi_reg_write_common_regs 1 0x05 0x20 (power_on VEN_ALI 0) =
     (power_on VEN_ALI 0)\<lparr>calls := calls (power_on VEN_ALI 0) @ [Plat_power_off]\<rparr>"
proof -
  have "(0x05 :: 16 word) AND 0x3f = 0x05" "(0x20 :: 8 word) AND 0x20 \<noteq> 0"
    "\<not> (vendor (dev (power_on VEN_ALI 0)) = VEN_INTEL_ICH2
         \<and> smi_en (regs (dev (power_on VEN_ALI 0))) AND 0x10 \<noteq> 0)"
    "suspend_types (dev (power_on VEN_ALI 0)) ! unat (drop_bit 2 (0x20 :: 8 word) AND 7)
       AND SUS_POWER_OFF \<noteq> 0"
    by code_simp+
  then show ?thesis
    by (rule power_off_is_terminal)
qed

text \<open>
  The claim as stated fails on an ICH2 device with SLP_SMI_EN set: sleep type 7 is
  power-off there, and the write of \<open>0x3c\<close> makes no call, sets bit 4 of SMI_STS and
  merges the byte into the control register.
\<close>

theorem power_off_counterexample:
  "suspend_types (dev ich2_slp_smi_en) ! unat (drop_bit 2 (0x3c :: 8 word) AND 7)
       AND SUS_POWER_OFF \<noteq> 0
   \<and> calls (acpi_reg_write_common_regs 1 0x05 0x3c ich2_slp_smi_en) = calls ich2_slp_smi_en
   \<and> Plat_power_off \<notin> set (calls (acpi_reg_write_common_regs 1 0x05 0x3c ich2_slp_smi_en))
   \<and> smi_sts (regs (dev ich2_slp_smi_en)) = 0
   \<and> smi_sts (regs (dev (acpi_reg_write_common_regs 1 0x05 0x3c ich2_slp_smi_en))) = 0x10
   \<and> pmcntrl (regs (dev ich2_slp_smi_en)) = 0
   \<and> pmcntrl (regs (dev (acpi_reg_write_common_regs 1 0x05 0x3c ich2_slp_smi_en))) = 0x3c00"
  by code_simp

subsection \<open>C7: the sleep trap of ICH2\<close>

text \<open>
  C7. What the code does on an ICH2 device with SLP_SMI_EN set when the byte written to
  offset 5 has the sleep-enable bit set and bit 2 (the lowest bit of the sleep type)
  clear: the trap is not taken. With a power-off sleep type the write powers off, as on a
  device without SLP_SMI_EN, and the handler goes on to \<open>acpi_update_irq\<close>; SMI_STS is
  not touched. The claim (every sleep-enable write is trapped while SLP_SMI_EN is set)
  fails there.
\<close>

theorem ich2_sleep_trap_needs_type_bit:
  assumes ven: "vendor (dev m) = VEN_INTEL_ICH2"
    and en: "smi_en (regs (dev m)) AND 0x10 \<noteq> 0"
    and a: "addr AND 0x7f = 0x05" and v: "val AND 0x20 \<noteq> 0" and b: "val AND 4 = 0"
    and off: "suspend_types (dev m) ! unat (drop_bit 2 val AND 7) AND SUS_POWER_OFF \<noteq> 0"
  shows "acpi_reg_write_intel_ich2 sz addr val m =
           acpi_update_irq (m\<lparr>calls := calls m @ [Plat_power_off]\<rparr>)"
  using assms
  by (simp add: acpi_reg_write_intel_ich2_def acpi_reg_write_common_regs_def Let_def do_call_def)

text \<open>
  On an ICH2 device sleep type 6 is power-off: with SLP_SMI_EN set, the write of
  \<open>0x38\<close> calls \<open>plat_power_off\<close> and leaves SMI_STS at 0.
\<close>

theorem ich2_sleep_trap_needs_type_bit_witness:
  "smi_en (regs (dev ich2_slp_smi_en)) AND 0x10 \<noteq> 0
   \<and> calls (acpi_reg_write_intel_ich2 1 0x05 0x38 ich2_slp_smi_en) =
       calls ich2_slp_smi_en @ [Plat_power_off, Pci_clear_mirq 0xf9 1, Timer_stop Timer]
   \<and> smi_sts (regs (dev (acpi_reg_write_intel_ich2 1 0x05 0x38 ich2_slp_smi_en))) = 0"
proof -
  have h: "vendor (dev ich2_slp_smi_en) = VEN_INTEL_ICH2"
    "smi_en (regs (dev ich2_slp_smi_en)) AND 0x10 \<noteq> 0"
    "(0x05 :: 16 word) AND 0x7f = 0x05" "(0x38 :: 8 word) AND 0x20 \<noteq> 0"
    "(0x38 :: 8 word) AND 4 = 0"
    "suspend_types (dev ich2_slp_smi_en) ! unat (drop_bit 2 (0x38 :: 8 word) AND 7)
       AND SUS_POWER_OFF \<noteq> 0"
    by code_simp+
  have s: "smi_sts (regs (dev ich2_slp_smi_en)) = 0"
    and c: "calls (acpi_update_irq (ich2_slp_smi_en\<lparr>calls := calls ich2_slp_smi_en @ [Plat_power_off]\<rparr>))
            = calls ich2_slp_smi_en @ [Plat_power_off, Pci_clear_mirq 0xf9 1, Timer_stop Timer]"
    by code_simp+
  show ?thesis
    using ich2_sleep_trap_needs_type_bit [OF h, of 1] h(2) s c
    by (simp add: update_irq_dev)
qed

subsection \<open>C8: the SMI lock of the VIA profiles\<close>

text \<open>
  C8, as amended. On the two VIA profiles \<open>acpi_raise_smi\<close> pulses the SMI line exactly
  when SMI generation is enabled (bit 0 of GLBCTL), the lock is clear or no SMI is active,
  and the request asks for a pulse; whenever SMI generation is enabled and the lock is
  clear or no SMI is active, the SMI-active flag is 1 afterwards; and while both lock and
  active are set nothing happens at all.
\<close>

theorem raise_smi_via:
  assumes "vendor (dev m) = VEN_VIA \<or> vendor (dev m) = VEN_VIA_596B"
  shows "calls (acpi_raise_smi do_smi m) =
           calls m @ (if glbctl (regs (dev m)) AND 0x01 \<noteq> 0
                         \<and> (smi_lock (regs (dev m)) = 0 \<or> smi_active (regs (dev m)) = 0)
                         \<and> do_smi \<noteq> 0
                      then [Smi_raise] else [])
         \<and> (glbctl (regs (dev m)) AND 0x01 \<noteq> 0
              \<and> (smi_lock (regs (dev m)) = 0 \<or> smi_active (regs (dev m)) = 0)
             \<longrightarrow> smi_active (regs (dev (acpi_raise_smi do_smi m))) = 1)
         \<and> (smi_lock (regs (dev m)) \<noteq> 0 \<and> smi_active (regs (dev m)) \<noteq> 0
             \<longrightarrow> acpi_raise_smi do_smi m = m)"
  using assms by (auto simp add: acpi_raise_smi_def Let_def)

text \<open>
  A VIA device with SMI generation enabled raises the SMI and becomes active; once it is
  locked and active, a further request does nothing.
\<close>

theorem raise_smi_via_witness:
  "calls (acpi_raise_smi 1 via_smi_en) = calls via_smi_en @ [Smi_raise]
   \<and> smi_active (regs (dev (acpi_raise_smi 1 via_smi_en))) = 1
   \<and> smi_lock (regs (dev via_smi_locked)) = 1
   \<and> smi_active (regs (dev via_smi_locked)) = 1
   \<and> acpi_raise_smi 1 via_smi_locked = via_smi_locked"
proof -
  have v: "vendor (dev via_smi_en) = VEN_VIA \<or> vendor (dev via_smi_en) = VEN_VIA_596B"
    and g: "glbctl (regs (dev via_smi_en)) AND 0x01 \<noteq> 0"
      "smi_lock (regs (dev via_smi_en)) = 0"
    and v': "vendor (dev via_smi_locked) = VEN_VIA \<or> vendor (dev via_smi_locked) = VEN_VIA_596B"
    and l: "smi_lock (regs (dev via_smi_locked)) = 1" "smi_active (regs (dev via_smi_locked)) = 1"
    by code_simp+
  have "calls (acpi_raise_smi 1 via_smi_en) = calls via_smi_en @ [Smi_raise]
        \<and> smi_active (regs (dev (acpi_raise_smi 1 via_smi_en))) = 1"
    using raise_smi_via [OF v, of 1] g by simp
  moreover have "acpi_raise_smi 1 via_smi_locked = via_smi_locked"
    using raise_smi_via [OF v', of 1] l by simp
  ultimately show ?thesis
    using l by simp
qed

text \<open>
  The claim as stated fails on a VIA device just powered on: SMI generation is disabled
  (GLBCTL is 0), the lock is clear and no SMI is active, and after the request the
  SMI-active flag is still 0.
\<close>

theorem raise_smi_via_counterexample:
  "vendor (dev (power_on VEN_VIA 0)) = VEN_VIA
   \<and> smi_lock (regs (dev (power_on VEN_VIA 0))) = 0
   \<and> smi_active (regs (dev (power_on VEN_VIA 0))) = 0
   \<and> smi_active (regs (dev (acpi_raise_smi 1 (power_on VEN_VIA 0)))) = 0"
  by code_simp

subsection \<open>C9: the ALi soft-SMI status read\<close>

text \<open>
  C9. \<open>acpi_ali_soft_smi_status_read\<close> returns 1 and leaves the soft-SMI status field at
  1, whatever the field held before: the result, value and device, is the same after
  any \<open>acpi_ali_soft_smi_status_write\<close>.
\<close>

theorem soft_smi_status_read_latches:
  "fst (acpi_ali_soft_smi_status_read m) = 1 \<and>
   ali_soft_smi (regs (dev (snd (acpi_ali_soft_smi_status_read m)))) = 1 \<and>
   acpi_ali_soft_smi_status_read (acpi_ali_soft_smi_status_write v m) =
     acpi_ali_soft_smi_status_read m"
  by (simp add: acpi_ali_soft_smi_status_read_def acpi_ali_soft_smi_status_write_def upd_regs_def)

theorem soft_smi_status_read_latches_witness:
  "ali_soft_smi (regs (dev (acpi_ali_soft_smi_status_write 0 (power_on VEN_ALI 0)))) = 0
   \<and> fst (acpi_ali_soft_smi_status_read
            (acpi_ali_soft_smi_status_write 0 (power_on VEN_ALI 0))) = 1
   \<and> ali_soft_smi (regs (dev (snd (acpi_ali_soft_smi_status_read
            (acpi_ali_soft_smi_status_write 0 (power_on VEN_ALI 0)))))) = 1"
proof -
  have "ali_soft_smi (regs (dev (acpi_ali_soft_smi_status_write 0 (power_on VEN_ALI 0)))) = 0"
    by code_simp
  then show ?thesis
    using soft_smi_status_read_latches
      [of "acpi_ali_soft_smi_status_write 0 (power_on VEN_ALI 0)"]
    by simp
qed

subsection \<open>C10: the SCI status offsets of the SMC auxiliary window\<close>

text \<open>
  C10. On the SMC profile a write to offset 0 or 1 of the auxiliary window clears bits of
  \<open>gpscists\<close> under the mask \<open>0x000c\<close> and changes nothing else; no auxiliary read
  depends on \<open>gpscists\<close>; a read at the written offset returns the byte of \<open>pcntrl\<close> in
  that lane; so every auxiliary read returns the same value after the write as before.
\<close>

theorem aux_sci_status_write_not_read_back:
  assumes smc: "vendor (dev m) = VEN_SMC"
    and a: "addr AND 0x07 = 0x00 \<or> addr AND 0x07 = 0x01"
  shows "acpi_aux_reg_write_common sz addr val m =
           upd_regs (\<lambda>r. r\<lparr>gpscists := gpscists r
              AND NOT ((if addr AND 0x07 = 0x00 then ucast val else push_bit 8 (ucast val))
                       AND 0x000c)\<rparr>) m
         \<and> acpi_aux_reg_read_common sz' a (upd_regs (\<lambda>r. r\<lparr>gpscists := g\<rparr>) m) =
             acpi_aux_reg_read_common sz' a m
         \<and> acpi_aux_reg_read_common sz' addr m =
             drop_bit (if addr AND 0x07 = 0x00 then 0 else 8) (pcntrl (regs (dev m))) AND 0xff
         \<and> acpi_aux_reg_read_common sz' a (acpi_aux_reg_write_common sz addr val m) =
             acpi_aux_reg_read_common sz' a m"
proof -
  have w: "acpi_aux_reg_write_common sz addr val m =
           upd_regs (\<lambda>r. r\<lparr>gpscists := gpscists r
              AND NOT ((if addr AND 0x07 = 0x00 then ucast val else push_bit 8 (ucast val))
                       AND 0x000c)\<rparr>) m"
    using smc a
    by (elim disjE)
      (simp_all add: acpi_aux_reg_write_common_def acpi_aux_reg_write_smc_def Let_def w1c_16)
  have r: "acpi_aux_reg_read_common sz' addr m =
             drop_bit (if addr AND 0x07 = 0x00 then 0 else 8) (pcntrl (regs (dev m))) AND 0xff"
    using smc a
    by (elim disjE)
      (simp_all add: acpi_aux_reg_read_common_def acpi_aux_reg_read_smc_def Let_def
        ucast_low_byte)
  show ?thesis
    by (intro conjI) (rule w, rule aux_read_ignores_gpscists, rule r,
        simp only: w aux_read_ignores_gpscists)
qed

text \<open>
  An SMC device with \<open>gpscists\<close> = \<open>0x000c\<close> and \<open>pcntrl\<close> = \<open>0x1234\<close>: the write of
  \<open>0x0c\<close> to offset 0 clears \<open>gpscists\<close>, and the reads at offsets 0 and 1 return
  \<open>0x34\<close> and \<open>0x12\<close> before and after.
\<close>

theorem aux_sci_status_write_not_read_back_witness:
  "gpscists (regs (dev (acpi_aux_reg_write_common 1 0x00 0x0c smc_sci_pending))) = 0
   \<and> acpi_aux_reg_read_common 1 0x00 smc_sci_pending = 0x34
   \<and> acpi_aux_reg_read_common 1 0x00 (acpi_aux_reg_write_common 1 0x00 0x0c smc_sci_pending) = 0x34
   \<and> acpi_aux_reg_read_common 1 0x01 smc_sci_pending = 0x12
   \<and> acpi_aux_reg_read_common 1 0x01 (acpi_aux_reg_write_common 1 0x00 0x0c smc_sci_pending) = 0x12"
proof -
  have smc: "vendor (dev smc_sci_pending) = VEN_SMC"
    and a: "(0x00 :: 16 word) AND 0x07 = 0x00 \<or> (0x00 :: 16 word) AND 0x07 = 0x01"
    and s: "gpscists (regs (dev smc_sci_pending)) = 0x000c"
    and r: "acpi_aux_reg_read_common 1 0x00 smc_sci_pending = 0x34"
      "acpi_aux_reg_read_common 1 0x01 smc_sci_pending = 0x12"
    by code_simp+
  note t = aux_sci_status_write_not_read_back [OF smc a, of 1 "0x0c"]
  have "gpscists (regs (dev (acpi_aux_reg_write_common 1 0x00 0x0c smc_sci_pending))) = 0"
    using t [of 1 0 0, THEN conjunct1] by (simp add: s)
  moreover have "acpi_aux_reg_read_common 1 0x00
      (acpi_aux_reg_write_common 1 0x00 0x0c smc_sci_pending) = 0x34"
    using t [of 1 "0x00" 0, THEN conjunct2, THEN conjunct2, THEN conjunct2] r by simp
  moreover have "acpi_aux_reg_read_common 1 0x01
      (acpi_aux_reg_write_common 1 0x00 0x0c smc_sci_pending) = 0x12"
    using t [of 1 "0x01" 0, THEN conjunct2, THEN conjunct2, THEN conjunct2] r by simp
  ultimately show ?thesis
    using r by simp
qed

end
